theory Spec2Isabelle
  imports Complex_Main
begin

text \<open>
  A shallow embedding of the browser scripts of the LiveLinen repository: the component
  form (\<open>static/components/js/component_form.js\<close>), the costing sheet
  (\<^verbatim>\<open>costing.js\<close>) and the chat client (\<open>staticfiles/chat/js/chat.js\<close>).

  Conventions used throughout.
  \<^item> A DOM element that the script looks up and guards with \<open>if (el)\<close> is an
    \<open>option\<close>: \<open>None\<close> when the page has no such element, \<open>Some v\<close> with its
    value otherwise.
  \<^item> A JavaScript string is a \<open>string\<close>; the empty string is the only falsy one.
    A property that may be absent, \<open>null\<close> or \<open>undefined\<close> is a
    \<open>string option\<close>.
  \<^item> A JavaScript number is an exact rational. IEEE-754 rounding, overflow to
    \<open>Infinity\<close> and the exponent notation that \<open>toFixed\<close> switches to from
    \<open>10^21\<close> on are outside the model; every comparison and sign below is the exact one.
  \<^item> An \<open>async\<close> function is split where it awaits the network: the part that runs
    when it is called, and the part that runs when the reply is delivered.
\<close>

section \<open>JavaScript strings\<close>

text \<open>
  \<open>a || d\<close> on a string that may be missing is \<open>or_else a d\<close>. A character of
  the model is a code unit from 0 to 255. \<open>trim\<close> removes the white space and line
  terminators of ECMAScript at both ends; in this range they are space, tab, line
  feed, vertical tab, form feed, carriage return and the no-break space U+00A0. The
  two case conversions act on the letters \<open>A\<close> to \<open>Z\<close> and on the accented
  letters U+00C0 to U+00DE and U+00E0 to U+00FE, the multiplication and division signs
  apart. Two conversions of JavaScript leave the range and are not in the model: the
  capital of the sharp s U+00DF is \<open>SS\<close>, and the capitals of U+00B5 and U+00FF lie
  beyond 255; the model leaves the three characters as they are.
\<close>

definition or_else :: "string option \<Rightarrow> string \<Rightarrow> string" where
  "or_else v d = (case v of None \<Rightarrow> d | Some s \<Rightarrow> if s = [] then d else s)"

definition truthy :: "string option \<Rightarrow> bool" where
  "truthy v \<longleftrightarrow> (case v of None \<Rightarrow> False | Some s \<Rightarrow> s \<noteq> [])"

definition is_space :: "char \<Rightarrow> bool" where
  "is_space c \<longleftrightarrow>
     c \<in> {CHR '' '', CHR 0x09, CHR 0x0A, CHR 0x0B, CHR 0x0C, CHR 0x0D, CHR 0xA0}"

definition trim :: "string \<Rightarrow> string" where
  "trim s = rev (dropWhile is_space (rev (dropWhile is_space s)))"

definition swap_case :: "string \<Rightarrow> string \<Rightarrow> char \<Rightarrow> char" where
  "swap_case from to c = (case map_of (zip from to) c of Some d \<Rightarrow> d | None \<Rightarrow> c)"

definition latin_capitals :: string where
  "latin_capitals =
     [CHR 0xC0, CHR 0xC1, CHR 0xC2, CHR 0xC3, CHR 0xC4, CHR 0xC5, CHR 0xC6, CHR 0xC7,
      CHR 0xC8, CHR 0xC9, CHR 0xCA, CHR 0xCB, CHR 0xCC, CHR 0xCD, CHR 0xCE, CHR 0xCF,
      CHR 0xD0, CHR 0xD1, CHR 0xD2, CHR 0xD3, CHR 0xD4, CHR 0xD5, CHR 0xD6,
      CHR 0xD8, CHR 0xD9, CHR 0xDA, CHR 0xDB, CHR 0xDC, CHR 0xDD, CHR 0xDE]"

definition latin_smalls :: string where
  "latin_smalls =
     [CHR 0xE0, CHR 0xE1, CHR 0xE2, CHR 0xE3, CHR 0xE4, CHR 0xE5, CHR 0xE6, CHR 0xE7,
      CHR 0xE8, CHR 0xE9, CHR 0xEA, CHR 0xEB, CHR 0xEC, CHR 0xED, CHR 0xEE, CHR 0xEF,
      CHR 0xF0, CHR 0xF1, CHR 0xF2, CHR 0xF3, CHR 0xF4, CHR 0xF5, CHR 0xF6,
      CHR 0xF8, CHR 0xF9, CHR 0xFA, CHR 0xFB, CHR 0xFC, CHR 0xFD, CHR 0xFE]"

definition toLowerCase :: "string \<Rightarrow> string" where
  "toLowerCase s =
     map (swap_case (''ABCDEFGHIJKLMNOPQRSTUVWXYZ'' @ latin_capitals)
                    (''abcdefghijklmnopqrstuvwxyz'' @ latin_smalls)) s"

definition toUpperCase :: "string \<Rightarrow> string" where
  "toUpperCase s =
     map (swap_case (''abcdefghijklmnopqrstuvwxyz'' @ latin_smalls)
                    (''ABCDEFGHIJKLMNOPQRSTUVWXYZ'' @ latin_capitals)) s"
section \<open>Numbers as the forms read and print them\<close>

subsection \<open>\<open>parseNum\<close>\<close>

text \<open>
  \<^verbatim>\<open>const parseNum = (v, fallback = 0) => {
    const n = Number(String(v || "").replace(/[^0-9.\-]/g, ""));
    return Number.isFinite(n) ? n : fallback; };\<close>
  The replacement keeps digits, dots and minus signs. On what is left, \<open>Number\<close>
  accepts the empty string (as \<open>0\<close>) and an optional minus sign followed by digits
  with at most one dot and at least one digit; everything else is \<open>NaN\<close>, here
  \<open>None\<close>, for which \<open>parseNum\<close> returns the fallback \<open>0\<close>.
\<close>

definition is_digit :: "char \<Rightarrow> bool" where
  "is_digit c \<longleftrightarrow> 48 \<le> (of_char c :: nat) \<and> (of_char c :: nat) \<le> 57"

definition digit_val :: "char \<Rightarrow> nat" where
  "digit_val c = of_char c - 48"

definition digits_val :: "string \<Rightarrow> nat" where
  "digits_val ds = foldl (\<lambda>a c. 10 * a + digit_val c) 0 ds"

definition strip_non_numeric :: "string \<Rightarrow> string" where
  "strip_non_numeric s = filter (\<lambda>c. is_digit c \<or> c = CHR ''.'' \<or> c = CHR ''-'') s"

text \<open>\<open>Number\<close> on a string over the alphabet of digits, dot and minus.\<close>

definition Number_js :: "string \<Rightarrow> rat option" where
  "Number_js s =
     (if s = [] then Some 0
      else
        let neg = (hd s = CHR ''-'');
            body = (if neg then tl s else s);
            ip = takeWhile is_digit body;
            rest = dropWhile is_digit body;
            sg = (if neg then - 1 else 1)
        in case rest of
             [] \<Rightarrow> if ip = [] then None else Some (sg * of_nat (digits_val ip))
           | c # fp \<Rightarrow>
               if c = CHR ''.'' \<and> list_all is_digit fp \<and> (ip \<noteq> [] \<or> fp \<noteq> [])
               then Some (sg * (of_nat (digits_val ip) + of_nat (digits_val fp) / 10 ^ length fp))
               else None)"

definition parseNum :: "string \<Rightarrow> rat" where
  "parseNum v = (case Number_js (strip_non_numeric v) of Some n \<Rightarrow> n | None \<Rightarrow> 0)"

subsection \<open>\<open>Number.prototype.toFixed\<close>\<close>

text \<open>
  \<open>x.toFixed(f)\<close> takes the integer \<open>n\<close> for which \<open>n / 10^f\<close> is closest to
  \<open>\<bar>x\<bar>\<close> (the larger one on a tie), prints its digits padded with zeros to at
  least \<open>f + 1\<close> places, puts the dot before the last \<open>f\<close> digits and a minus sign
  in front when \<open>x < 0\<close>. \<open>round_to f x\<close> is the number that string denotes, which
  is what the unary plus of \<open>+(x).toFixed(2)\<close> reads back (lemma
  \<open>Number_js_toFixed\<close> below).
\<close>

definition digit_char :: "nat \<Rightarrow> char" where
  "digit_char d = ''0123456789'' ! d"

function show_nat :: "nat \<Rightarrow> string" where
  "show_nat n = (if n < 10 then [digit_char n] else show_nat (n div 10) @ [digit_char (n mod 10)])"
  by pat_completeness auto
termination
  by (relation "measure id") auto

declare show_nat.simps [simp del]

definition round_scaled :: "nat \<Rightarrow> rat \<Rightarrow> nat" where
  "round_scaled f x = nat \<lfloor>\<bar>x\<bar> * 10 ^ f + 1 / 2\<rfloor>"

definition round_to :: "nat \<Rightarrow> rat \<Rightarrow> rat" where
  "round_to f x = (if x < 0 then - 1 else 1) * of_nat (round_scaled f x) / 10 ^ f"

definition toFixed :: "nat \<Rightarrow> rat \<Rightarrow> string" where
  "toFixed f x =
     (let m = show_nat (round_scaled f x);
          m' = replicate (f + 1 - length m) (CHR ''0'') @ m;
          k = length m' - f
      in (if x < 0 then ''-'' else []) @ take k m' @
         (if f = 0 then [] else CHR ''.'' # drop k m'))"

section \<open>The Derived Metric Calculator: \<open>computeClientMetrics\<close>\<close>

text \<open>
  \<^verbatim>\<open>function computeClientMetrics(priceStr, widthStr, widthUom, logisticsStr) {
    const price = parseNum(priceStr);
    const width = parseNum(widthStr);
    const logistics = parseNum(logisticsStr);
    const finalPricePerUnit = +(price * (1 + logistics / 100)).toFixed(2);
    let widthInInch = width;
    const u = (widthUom || "inch").toLowerCase();
    if (["cm", "centimeter", "centimetre", "cms"].includes(u)) widthInInch = width / 2.54;
    let pricePerSqft = 0;
    try {
      const denom = ((widthInInch * 2.54) / 1.07) / 100;
      if (denom > 0) pricePerSqft = finalPricePerUnit / denom;
    } catch (e) {}
    return { final_price_per_unit: finalPricePerUnit.toFixed(2),
             price_per_sqfoot: pricePerSqft.toFixed(4),
             final_cost: finalPricePerUnit.toFixed(2) }; }\<close>
  Each local variable of the function is a definition of its own, under the name it has
  in the source, so that the theorems can speak about it. Nothing inside the
  \<open>try\<close> block can throw (a JavaScript division never does), so the \<open>catch\<close> has
  no branch in the model. The four arguments are strings, as the parameter names say and
  as form values are.
\<close>

record metrics =
  final_price_per_unit :: string
  price_per_sqfoot :: string
  final_cost :: string

definition finalPricePerUnit :: "string \<Rightarrow> string \<Rightarrow> rat" where
  "finalPricePerUnit priceStr logisticsStr =
     round_to 2 (parseNum priceStr * (1 + parseNum logisticsStr / 100))"

definition centimeter_units :: "string list" where
  "centimeter_units = [''cm'', ''centimeter'', ''centimetre'', ''cms'']"

definition widthInInch :: "string \<Rightarrow> string \<Rightarrow> rat" where
  "widthInInch widthStr widthUom =
     (let width = parseNum widthStr;
          u = toLowerCase (if widthUom = [] then ''inch'' else widthUom)
      in if u \<in> set centimeter_units then width / (254 / 100) else width)"

definition denom :: "string \<Rightarrow> string \<Rightarrow> rat" where
  "denom widthStr widthUom =
     ((widthInInch widthStr widthUom * (254 / 100)) / (107 / 100)) / 100"

definition pricePerSqft :: "string \<Rightarrow> string \<Rightarrow> string \<Rightarrow> string \<Rightarrow> rat" where
  "pricePerSqft priceStr widthStr widthUom logisticsStr =
     (if denom widthStr widthUom > 0
      then finalPricePerUnit priceStr logisticsStr / denom widthStr widthUom
      else 0)"

definition computeClientMetrics :: "string \<Rightarrow> string \<Rightarrow> string \<Rightarrow> string \<Rightarrow> metrics" where
  "computeClientMetrics priceStr widthStr widthUom logisticsStr =
     \<lparr>final_price_per_unit = toFixed 2 (finalPricePerUnit priceStr logisticsStr),
      price_per_sqfoot = toFixed 4 (pricePerSqft priceStr widthStr widthUom logisticsStr),
      final_cost = toFixed 2 (finalPricePerUnit priceStr logisticsStr)\<rparr>"

section \<open>The Remote Lookup Client: \<open>safeFetch\<close>\<close>

text \<open>
  \<^verbatim>\<open>async function safeFetch(url, params = {}, opts = {}) {
    if (!url) throw new Error("URL not configured");
    const method = (opts.method || "GET").toUpperCase();
    let fullUrl = url;
    let fetchOpts = { method, credentials: "same-origin",
                      headers: { Accept: "application/json" } };
    if (["POST", "PUT", "PATCH", "DELETE"].includes(method))
      fetchOpts.headers["X-CSRFToken"] = CSRF_TOKEN;
    if (method === "GET") {
      const q = new URLSearchParams(params || {}).toString();
      fullUrl = url + (q ? "?" + q : "");
    } else if (opts.contentType === "json") {
      fetchOpts.headers["Content-Type"] = "application/json";
      fetchOpts.body = JSON.stringify(params || {});
    } else {
      fetchOpts.headers["Content-Type"] = "application/x-www-form-urlencoded;charset=UTF-8";
      fetchOpts.body = new URLSearchParams(params || {}).toString();
    }
    const res = await fetch(fullUrl, fetchOpts);
    const text = await res.text().catch(() => "");
    try {
      const json = text ? JSON.parse(text) : {};
      if (!res.ok) {
        const e = new Error(`Fetch ${res.status} ${res.statusText}`);
        e.status = res.status; e.body = json; throw e;
      }
      return json;
    } catch (parseErr) {
      if (!res.ok) {
        const e = new Error(`Fetch ${res.status} ${res.statusText}`);
        e.status = res.status; e.body = text; throw e;
      }
      return { raw: text };
    } }\<close>

  What the browser provides is a parameter of the model, collected in the record
  \<open>host\<close>: \<open>JSON.parse\<close> (\<open>None\<close> when it throws its \<open>SyntaxError\<close>),
  \<open>JSON.stringify\<close> and \<open>URLSearchParams.toString\<close> on the parameter object, and
  the network itself, \<open>fetch\<close>, which answers a request with a response or not at all
  (\<open>None\<close>: the promise of \<open>fetch\<close> rejects). A response has its status, its
  status text and its body text (\<open>None\<close> when \<open>res.text()\<close> rejects, which the
  script turns into the empty string); \<open>res.ok\<close> is a status from 200 to 299.

  A thrown value is a value of type \<open>thrown\<close>; a block that can throw returns
  \<open>thrown + 'a\<close>, and \<open>try_catch\<close> runs the handler on whatever the block threw,
  as the \<open>catch\<close> clause does. A call of a function either throws to its caller or
  returns; an \<open>async\<close> function returns a promise, which settles as resolved or
  rejected.
\<close>

datatype json =
    JNull | JBool bool | JNum rat | JStr string | JArr "json list"
  | JObj "(string \<times> json) list"

datatype error_body = BodyJson json | BodyText string

datatype thrown =
    Error string "nat option" "error_body option"
  | SyntaxError
  | NetworkError

datatype 'a settled = Resolved 'a | Rejected thrown

datatype 'a call = Throws thrown | Returns "'a settled"

definition async :: "thrown + 'a \<Rightarrow> 'a call" where
  "async body = Returns (case body of Inl e \<Rightarrow> Rejected e | Inr v \<Rightarrow> Resolved v)"

definition try_catch :: "thrown + 'a \<Rightarrow> (thrown \<Rightarrow> thrown + 'a) \<Rightarrow> thrown + 'a" where
  "try_catch block handler = (case block of Inl e \<Rightarrow> handler e | Inr v \<Rightarrow> Inr v)"

record response =
  res_status :: nat
  res_statusText :: string
  res_text :: "string option"

definition res_ok :: "response \<Rightarrow> bool" where
  "res_ok res \<longleftrightarrow> 200 \<le> res_status res \<and> res_status res \<le> 299"

record fetch_request =
  fullUrl :: string
  req_method :: string
  req_headers :: "(string \<times> string) list"
  req_body :: "string option"

record fetch_opts =
  opt_method :: "string option"
  opt_contentType :: "string option"

record host =
  JSON_parse :: "string \<Rightarrow> json option"
  JSON_stringify :: "(string \<times> string) list \<Rightarrow> string"
  URLSearchParams_toString :: "(string \<times> string) list \<Rightarrow> string"
  fetch :: "fetch_request \<Rightarrow> response option"

definition safeFetch_request ::
  "host \<Rightarrow> string \<Rightarrow> string \<Rightarrow> (string \<times> string) list \<Rightarrow> fetch_opts \<Rightarrow> fetch_request" where
  "safeFetch_request h CSRF_TOKEN url params opts =
     (let method = toUpperCase (or_else (opt_method opts) ''GET'');
          headers = [(''Accept'', ''application/json'')] @
            (if method \<in> set [''POST'', ''PUT'', ''PATCH'', ''DELETE'']
             then [(''X-CSRFToken'', CSRF_TOKEN)] else [])
      in if method = ''GET'' then
           let q = URLSearchParams_toString h params
           in \<lparr>fullUrl = url @ (if q \<noteq> [] then ''?'' @ q else []), req_method = method,
                req_headers = headers, req_body = None\<rparr>
         else if opt_contentType opts = Some ''json'' then
           \<lparr>fullUrl = url, req_method = method,
            req_headers = headers @ [(''Content-Type'', ''application/json'')],
            req_body = Some (JSON_stringify h params)\<rparr>
         else
           \<lparr>fullUrl = url, req_method = method,
            req_headers = headers @
              [(''Content-Type'', ''application/x-www-form-urlencoded;charset=UTF-8'')],
            req_body = Some (URLSearchParams_toString h params)\<rparr>)"

definition status_error :: "response \<Rightarrow> error_body \<Rightarrow> thrown" where
  "status_error res b =
     Error (''Fetch '' @ show_nat (res_status res) @ '' '' @ res_statusText res)
       (Some (res_status res)) (Some b)"

definition safeFetch_settle :: "host \<Rightarrow> response \<Rightarrow> thrown + json" where
  "safeFetch_settle h res =
     (let text = (case res_text res of Some t \<Rightarrow> t | None \<Rightarrow> [])
      in try_catch
           (case (if text \<noteq> [] then JSON_parse h text else Some (JObj [])) of
              None \<Rightarrow> Inl SyntaxError
            | Some json \<Rightarrow>
                if \<not> res_ok res then Inl (status_error res (BodyJson json)) else Inr json)
           (\<lambda>parseErr.
              if \<not> res_ok res then Inl (status_error res (BodyText text))
              else Inr (JObj [(''raw'', JStr text)])))"

definition safeFetch ::
  "host \<Rightarrow> string \<Rightarrow> string \<Rightarrow> (string \<times> string) list \<Rightarrow> fetch_opts \<Rightarrow> json call" where
  "safeFetch h CSRF_TOKEN url params opts =
     async
       (if url = [] then Inl (Error ''URL not configured'' None None)
        else case fetch h (safeFetch_request h CSRF_TOKEN url params opts) of
               None \<Rightarrow> Inl NetworkError
             | Some res \<Rightarrow> safeFetch_settle h res)"

text \<open>
  A server that refuses a duplicate colour: status 400 with a JSON body. The host parses
  that one body; \<open>JSON.stringify\<close> and \<open>URLSearchParams\<close> are not what the example is
  about and print nothing.
\<close>

definition duplicate_color_text :: string where
  \<open>duplicate_color_text = ''{"error": "Color already exists"}''\<close>

definition duplicate_color_json :: json where
  "duplicate_color_json = JObj [(''error'', JStr ''Color already exists'')]"

definition duplicate_color_response :: response where
  "duplicate_color_response =
     \<lparr>res_status = 400, res_statusText = ''Bad Request'',
      res_text = Some duplicate_color_text\<rparr>"

definition duplicate_color_host :: host where
  "duplicate_color_host =
     \<lparr>JSON_parse = (\<lambda>s. if s = duplicate_color_text then Some duplicate_color_json else None),
      JSON_stringify = (\<lambda>ps. []),
      URLSearchParams_toString = (\<lambda>ps. []),
      fetch = (\<lambda>rq. Some duplicate_color_response)\<rparr>"

section \<open>The component form (\<open>component_form.js\<close>)\<close>

subsection \<open>Select elements\<close>

text \<open>
  A \<open>select\<close> element is its list of options and the index of the selected one
  (\<open>None\<close> for \<open>selectedIndex = -1\<close>). The browser's part is modelled as the DOM
  standard has it for a drop-down: the value of the element is the value of the selected
  option, or the empty string; assigning a value selects the first option with that
  value, or none; and an element that gains its first option has that option selected.
  Each option carries the \<open>dataset\<close> entries the script attaches to it.
\<close>

record opt =
  o_value :: string
  o_text :: string
  data_id :: "string option"
  data_label :: "string option"
  data_type :: "string option"
  data_ct :: "string option"
  data_extra :: "string option"

record select =
  options :: "opt list"
  selectedIndex :: "nat option"

definition selected_option :: "select \<Rightarrow> opt option" where
  "selected_option s =
     (case selectedIndex s of
        None \<Rightarrow> None
      | Some i \<Rightarrow> if i < length (options s) then Some (options s ! i) else None)"

definition select_value :: "select \<Rightarrow> string" where
  "select_value s = (case selected_option s of None \<Rightarrow> [] | Some x \<Rightarrow> o_value x)"

fun find_index :: "('a \<Rightarrow> bool) \<Rightarrow> 'a list \<Rightarrow> nat option" where
  "find_index P [] = None"
| "find_index P (x # xs) = (if P x then Some 0 else map_option Suc (find_index P xs))"

definition set_value :: "string \<Rightarrow> select \<Rightarrow> select" where
  "set_value v s = s\<lparr>selectedIndex := find_index (\<lambda>x. o_value x = v) (options s)\<rparr>"

definition appendChild :: "opt \<Rightarrow> select \<Rightarrow> select" where
  "appendChild x s =
     s\<lparr>options := options s @ [x],
       selectedIndex := (case selectedIndex s of None \<Rightarrow> Some 0 | Some i \<Rightarrow> Some i)\<rparr>"

definition placeholder_option :: "string \<Rightarrow> opt" where
  "placeholder_option t =
     \<lparr>o_value = [], o_text = t, data_id = None, data_label = None, data_type = None,
      data_ct = None, data_extra = None\<rparr>"

text \<open>
  \<^verbatim>\<open>const clearSelect = (el, placeholder) => {
    if (!el) return;
    el.innerHTML = "";
    const opt = document.createElement("option");
    opt.value = ""; opt.textContent = placeholder || "-- Select --";
    el.appendChild(opt); };\<close>
\<close>

definition clearSelect :: "select option \<Rightarrow> string \<Rightarrow> select option" where
  "clearSelect el placeholder =
     (case el of
        None \<Rightarrow> None
      | Some s \<Rightarrow>
          Some (appendChild
                  (placeholder_option (if placeholder = [] then ''-- Select --'' else placeholder))
                  \<lparr>options = [], selectedIndex = None\<rparr>))"

subsection \<open>What the server sends\<close>

text \<open>
  The replies of the three lookup endpoints, as \<open>safeFetch\<close> resolves them: an object
  that may have a \<open>results\<close> array (qualities, types) and may have the fields of an
  inventory item. A field is \<open>None\<close> when it is absent or \<open>null\<close>. Field values are
  strings; a JSON number is represented by the string \<open>String\<close> makes of it, so the one
  falsy number, \<open>0\<close>, is not told apart from the truthy string \<open>"0"\<close>.
\<close>

record result =
  r_id :: "string option"
  r_value :: "string option"
  r_label :: "string option"
  r_label_text :: "string option"
  r_extra :: "string option"
  r_type :: "string option"
  r_content_type_id :: "string option"
  r_content_type :: "string option"
  r_ct :: "string option"

record reply =
  j_results :: "result list option"
  j_cost_per_unit :: "string option"
  j_price :: "string option"
  j_width :: "string option"
  j_width_uom :: "string option"
  j_final_price_per_unit :: "string option"
  j_price_per_sqfoot :: "string option"
  j_final_cost :: "string option"
  j_type :: "string option"
  j_label :: "string option"

subsection \<open>The page\<close>

text \<open>
  The elements \<open>initForm\<close> looks up, the three lookup URLs of the configuration (the
  empty string when one is not configured), the log of the requests that went out, and
  the requests still in flight: each with the number of its request in the log and with
  what the function that awaits it has captured (\<open>prevSelected\<close>).
\<close>

record lookup =
  lk_url :: string
  lk_params :: "(string \<times> string) list"

datatype pending = AwaitQualities string | AwaitTypes string | AwaitItem

record page =
  url_qualities_by_category :: string
  url_types_by_quality :: string
  url_inventory_item :: string
  categoryEl :: "string option"
  qualityEl :: "select option"
  productEl :: "select option"
  logisticsEl :: "string option"
  costEl :: "string option"
  widthEl :: "string option"
  widthUomEl :: "string option"
  finalPriceEl :: "string option"
  pricePerSqftEl :: "string option"
  finalCostEl :: "string option"
  hiddenCT :: "string option"
  hiddenOID :: "string option"
  typeEl :: "string option"
  nameField :: "string option"
  component_product_help :: "string option"
  requests :: "lookup list"
  inflight :: "(nat \<times> pending) list"

definition set_el :: "string \<Rightarrow> string option \<Rightarrow> string option" where
  "set_el v el = map_option (\<lambda>_. v) el"

definition el_value :: "string option \<Rightarrow> string" where
  "el_value el = (case el of None \<Rightarrow> [] | Some v \<Rightarrow> v)"

definition setHidden :: "string \<Rightarrow> string \<Rightarrow> string \<Rightarrow> page \<Rightarrow> page" where
  "setHidden ct oid label p =
     p\<lparr>hiddenCT := set_el ct (hiddenCT p),
       hiddenOID := set_el oid (hiddenOID p),
       component_product_help := set_el label (component_product_help p)\<rparr>"

definition clear_derived_fields :: "page \<Rightarrow> page" where
  "clear_derived_fields p =
     p\<lparr>costEl := set_el [] (costEl p), widthEl := set_el [] (widthEl p),
       widthUomEl := set_el [] (widthUomEl p), finalPriceEl := set_el [] (finalPriceEl p),
       pricePerSqftEl := set_el [] (pricePerSqftEl p), finalCostEl := set_el [] (finalCostEl p),
       typeEl := set_el [] (typeEl p), nameField := set_el [] (nameField p)\<rparr>"

text \<open>
  A call of \<open>safeFetch\<close> with a configured URL sends one request; the promise stays
  pending until the reply is delivered.
\<close>

definition issue :: "string \<Rightarrow> (string \<times> string) list \<Rightarrow> pending \<Rightarrow> page \<Rightarrow> page" where
  "issue url params k p =
     p\<lparr>requests := requests p @ [\<lparr>lk_url = url, lk_params = params\<rparr>],
       inflight := inflight p @ [(length (requests p), k)]\<rparr>"

definition auto_name :: "page \<Rightarrow> page" where
  "auto_name p =
     (let qualityName = (case qualityEl p of Some q \<Rightarrow> trim (select_value q) | None \<Rightarrow> []);
          typeName = trim (el_value (typeEl p))
      in p\<lparr>nameField :=
             set_el (if qualityName \<noteq> [] \<and> typeName \<noteq> [] then qualityName @ '' '' @ typeName
                     else if typeName \<noteq> [] then typeName else qualityName)
               (nameField p)\<rparr>)"

subsection \<open>\<open>populateFromItemResponse\<close>\<close>

text \<open>
  \<^verbatim>\<open>async function populateFromItemResponse(json) {
    if (!json) return;
    const cost = json.cost_per_unit || json.price || "";
    const width = json.width || "";
    const width_uom = json.width_uom || "inch";
    const final_price_server = json.final_price_per_unit || "";
    const price_per_sqft_server = json.price_per_sqfoot || "";
    const final_cost_server = json.final_cost || "";
    if (costEl && cost !== "") costEl.value = cost;
    if (widthEl && width !== "") widthEl.value = width;
    if (widthUomEl && width_uom !== "") widthUomEl.value = width_uom;
    if (finalPriceEl && final_price_server !== "") finalPriceEl.value = final_price_server;
    if (pricePerSqftEl && price_per_sqft_server !== "") pricePerSqftEl.value = price_per_sqft_server;
    if (finalCostEl && final_cost_server !== "") finalCostEl.value = final_cost_server;
    if (typeEl) {
      if (json.type) typeEl.value = json.type;
      else if (json.label) typeEl.value = json.label;
      else if (hiddenOID && hiddenOID.value) typeEl.value = "Type #" + hiddenOID.value;
      else typeEl.value = "";
    }
    ... nameField.value = qualityName && typeName ? `${qualityName} ${typeName}`
                                                  : typeName || qualityName; ...
    const clientMetrics = computeClientMetrics(cost || "", width || "", width_uom || "inch",
      logisticsEl ? logisticsEl.value || "0" : "0");
    if (finalPriceEl && (!finalPriceEl.value || finalPriceEl.value === ""))
      finalPriceEl.value = clientMetrics.final_price_per_unit;
    if (pricePerSqftEl && (!pricePerSqftEl.value || pricePerSqftEl.value === ""))
      pricePerSqftEl.value = clientMetrics.price_per_sqfoot;
    if (finalCostEl && (!finalCostEl.value || finalCostEl.value === ""))
      finalCostEl.value = clientMetrics.final_cost; }\<close>
  The argument is \<open>None\<close> when \<open>fetchInventoryItem\<close> returned \<open>null\<close>.
\<close>

definition set_if_supplied :: "string \<Rightarrow> string option \<Rightarrow> string option" where
  "set_if_supplied v el = (if v \<noteq> [] then set_el v el else el)"

definition fill_if_empty :: "string \<Rightarrow> string option \<Rightarrow> string option" where
  "fill_if_empty v el = (case el of None \<Rightarrow> None | Some cur \<Rightarrow> if cur = [] then Some v else Some cur)"

definition populateFromItemResponse :: "reply option \<Rightarrow> page \<Rightarrow> page" where
  "populateFromItemResponse json p =
     (case json of
        None \<Rightarrow> p
      | Some j \<Rightarrow>
          let cost = or_else (j_cost_per_unit j) (or_else (j_price j) []);
              width = or_else (j_width j) [];
              width_uom = or_else (j_width_uom j) ''inch'';
              final_price_server = or_else (j_final_price_per_unit j) [];
              price_per_sqft_server = or_else (j_price_per_sqfoot j) [];
              final_cost_server = or_else (j_final_cost j) [];
              p1 = p\<lparr>costEl := set_if_supplied cost (costEl p),
                     widthEl := set_if_supplied width (widthEl p),
                     widthUomEl := set_if_supplied width_uom (widthUomEl p),
                     finalPriceEl := set_if_supplied final_price_server (finalPriceEl p),
                     pricePerSqftEl := set_if_supplied price_per_sqft_server (pricePerSqftEl p),
                     finalCostEl := set_if_supplied final_cost_server (finalCostEl p)\<rparr>;
              p2 = p1\<lparr>typeEl :=
                     set_el (if truthy (j_type j) then the (j_type j)
                             else if truthy (j_label j) then the (j_label j)
                             else if truthy (hiddenOID p1) then ''Type #'' @ the (hiddenOID p1)
                             else [])
                       (typeEl p1)\<rparr>;
              p3 = auto_name p2;
              clientMetrics =
                computeClientMetrics cost width (if width_uom = [] then ''inch'' else width_uom)
                  (or_else (logisticsEl p3) ''0'')
          in p3\<lparr>finalPriceEl := fill_if_empty (final_price_per_unit clientMetrics) (finalPriceEl p3),
                pricePerSqftEl := fill_if_empty (price_per_sqfoot clientMetrics) (pricePerSqftEl p3),
                finalCostEl := fill_if_empty (final_cost clientMetrics) (finalCostEl p3)\<rparr>)"

text \<open>The \<open>input\<close> handler of the logistics field recomputes the three derived fields.\<close>

definition logistics_input :: "string \<Rightarrow> page \<Rightarrow> page" where
  "logistics_input v p =
     (case logisticsEl p of
        None \<Rightarrow> p
      | Some _ \<Rightarrow>
          let p1 = p\<lparr>logisticsEl := Some v\<rparr>;
              price = el_value (costEl p1);
              width = el_value (widthEl p1);
              widthUom = or_else (widthUomEl p1) ''inch'';
              logistics = (if v = [] then ''0'' else v);
              m = computeClientMetrics price width widthUom logistics
          in p1\<lparr>finalPriceEl := set_el (final_price_per_unit m) (finalPriceEl p1),
                pricePerSqftEl := set_el (price_per_sqfoot m) (pricePerSqftEl p1),
                finalCostEl := set_el (final_cost m) (finalCostEl p1)\<rparr>)"

subsection \<open>Building the options\<close>

text \<open>
  The body of \<open>results.forEach\<close> in \<open>loadQualitiesByCategory\<close>:
  \<^verbatim>\<open>const id = r.id !== undefined && r.id !== null ? String(r.id) : null;
  const value = r.value !== undefined && r.value !== null ? String(r.value)
              : id || (r.label !== undefined && r.label !== null ? String(r.label) : "");
  const label = r.label !== undefined && r.label !== null ? String(r.label)
              : r.label_text !== undefined && r.label_text !== null ? String(r.label_text)
              : id || String(value);
  opt.value = value !== null ? value : "";
  opt.textContent = label;
  if (id) opt.dataset.id = id;
  if (label) opt.dataset.label = label;
  if (r.extra !== undefined) opt.dataset.extra = String(r.extra);\<close>
\<close>

definition nonempty :: "string \<Rightarrow> string option" where
  "nonempty s = (if s = [] then None else Some s)"

definition qualityOption :: "result \<Rightarrow> opt" where
  "qualityOption r =
     (let id = r_id r;
          value = (case r_value r of Some v \<Rightarrow> v
                   | None \<Rightarrow> or_else id (case r_label r of Some l \<Rightarrow> l | None \<Rightarrow> []));
          label = (case r_label r of Some l \<Rightarrow> l
                   | None \<Rightarrow> (case r_label_text r of Some l \<Rightarrow> l | None \<Rightarrow> or_else id value))
      in \<lparr>o_value = value, o_text = label,
          data_id = (if truthy id then id else None),
          data_label = nonempty label, data_type = None, data_ct = None,
          data_extra = r_extra r\<rparr>)"

text \<open>
  The body of \<open>results.forEach\<close> in \<open>loadTypesByQuality\<close>:
  \<^verbatim>\<open>const id = ...; const value = ...;   // as above
  const rawType = (r.type !== undefined && r.type !== null) ? String(r.type).trim() : "";
  const label = (r.label !== undefined && r.label !== null) ? String(r.label).trim()
              : (rawType || (id ? `#${id}` : value));
  o.value = value !== null ? value : "";
  if (rawType) { o.textContent = rawType; o.dataset.type = rawType; }
  else if (label) { o.textContent = label; o.dataset.type = label; }
  else { o.textContent = id ? `#${id}` : value; o.dataset.type = ""; }
  const ctVal = r.content_type_id || r.content_type || r.ct || "";
  if (ctVal !== undefined && ctVal !== null && String(ctVal).trim() !== "")
    o.dataset.ct = String(ctVal);
  else o.dataset.ct = "";
  if (id) o.dataset.id = id;
  if (label) o.dataset.label = label;\<close>
\<close>

definition typeOption :: "result \<Rightarrow> opt" where
  "typeOption r =
     (let id = r_id r;
          value = (case r_value r of Some v \<Rightarrow> v
                   | None \<Rightarrow> or_else id (case r_label r of Some l \<Rightarrow> l | None \<Rightarrow> []));
          hash_id = (if truthy id then ''#'' @ the id else value);
          rawType = (case r_type r of Some t \<Rightarrow> trim t | None \<Rightarrow> []);
          label = (case r_label r of Some l \<Rightarrow> trim l
                   | None \<Rightarrow> if rawType \<noteq> [] then rawType else hash_id);
          ctVal = or_else (r_content_type_id r) (or_else (r_content_type r) (or_else (r_ct r) []))
      in \<lparr>o_value = value,
          o_text = (if rawType \<noteq> [] then rawType else if label \<noteq> [] then label else hash_id),
          data_id = (if truthy id then id else None),
          data_label = nonempty label,
          data_type = Some (if rawType \<noteq> [] then rawType else label),
          data_ct = Some (if trim ctVal \<noteq> [] then ctVal else []),
          data_extra = None\<rparr>)"

definition append_options :: "opt list \<Rightarrow> select option \<Rightarrow> select option" where
  "append_options xs el = map_option (\<lambda>s. foldl (\<lambda>s x. appendChild x s) s xs) el"

subsection \<open>The product level\<close>

text \<open>
  The \<open>change\<close> handler of the product select. With a content type and an object id
  it calls \<open>fetchInventoryItem\<close>, which sends the request through \<open>safeFetch\<close> and
  turns a rejection into \<open>null\<close>; when the reply is delivered, \<open>item_done\<close> runs the
  rest of the handler: \<open>populateFromItemResponse\<close> and the name. (The handler then
  reloads the colours widget, which is not part of this page state.)
  \<^verbatim>\<open>const idx = ev.target.selectedIndex;
  const opt = ev.target.options[idx];
  const oid = ev.target.value || "";
  const ct = opt ? opt.dataset.ct || "" : "";
  const label = opt ? (opt.dataset.label || opt.textContent || "") : "";
  const optType = opt ? (opt.dataset.type || "") : "";
  setHidden(ct, oid, optType || label);
  if (ct && oid) {
    const quality = qualityEl ? (qualityEl.value || "") : "";
    const json = await fetchInventoryItem(ct, oid, quality);
    await populateFromItemResponse(json);
    ... nameField.value = ... }\<close>
\<close>

definition item_done :: "reply option \<Rightarrow> page \<Rightarrow> page" where
  "item_done json p = auto_name (populateFromItemResponse json p)"

definition fetchInventoryItem :: "string \<Rightarrow> string \<Rightarrow> string \<Rightarrow> page \<Rightarrow> page" where
  "fetchInventoryItem ct oid quality p =
     (if url_inventory_item p = [] then item_done None p
      else issue (url_inventory_item p)
             [(''content_type_id'', ct), (''object_id'', oid), (''quality'', quality),
              (''logistics_percent'', el_value (logisticsEl p))]
             AwaitItem p)"

definition product_change :: "page \<Rightarrow> page" where
  "product_change p =
     (case productEl p of
        None \<Rightarrow> p
      | Some s \<Rightarrow>
          let opt = selected_option s;
              oid = select_value s;
              ct = (case opt of Some x \<Rightarrow> or_else (data_ct x) [] | None \<Rightarrow> []);
              label = (case opt of Some x \<Rightarrow> or_else (data_label x) (o_text x) | None \<Rightarrow> []);
              optType = (case opt of Some x \<Rightarrow> or_else (data_type x) [] | None \<Rightarrow> []);
              p1 = setHidden ct oid (if optType \<noteq> [] then optType else label) p
          in if ct \<noteq> [] \<and> oid \<noteq> [] then
               fetchInventoryItem ct oid
                 (case qualityEl p1 of Some q \<Rightarrow> select_value q | None \<Rightarrow> []) p1
             else p1)"

subsection \<open>The quality level: \<open>loadTypesByQuality\<close>\<close>

text \<open>
  \<^verbatim>\<open>async function loadTypesByQuality(category, quality, search_q) {
    if (!productEl) return;
    const prevSelected = productEl.value || "";
    clearSelect(productEl, "-- Loading product types... --");
    setHidden("", "", "");
    if (!category || !quality) {
      clearSelect(productEl, "-- Select quality first --");
      return;
    }
    try {
      const json = await safeFetch(urls.types_by_quality,
                                   { category, quality, q: search_q || "" });
      const results = json.results || [];
      if (!results.length) { clearSelect(productEl, "-- No types found --"); return; }
      clearSelect(productEl, "-- Select type --");
      results.forEach((r) => { ... productEl.appendChild(o); });
      if (prevSelected) {
        try {
          productEl.value = prevSelected;
          productEl.dispatchEvent(new Event("change", { bubbles: true }));
        } catch (e) {}
      }
    } catch (e) {
      clearSelect(productEl, "-- Error loading types --");
    } }\<close>
  \<open>loadTypesByQuality_begin\<close> is the function up to its \<open>await\<close>; the flag it
  returns says that \<open>safeFetch\<close> rejected at once (no URL configured), in which case
  the \<open>catch\<close> clause, \<open>loadTypesByQuality_fail\<close>, runs as soon as the calling
  handler has finished. \<open>loadTypesByQuality_done\<close> is the function from the
  \<open>await\<close> on, run when the reply (\<open>None\<close>: a rejection) is delivered. No variable
  of the function or of the script records which call is the latest one.
\<close>

definition loadTypesByQuality_begin :: "string \<Rightarrow> string \<Rightarrow> page \<Rightarrow> page \<times> bool" where
  "loadTypesByQuality_begin category quality p =
     (case productEl p of
        None \<Rightarrow> (p, False)
      | Some s \<Rightarrow>
          let prevSelected = select_value s;
              p1 = p\<lparr>productEl := clearSelect (productEl p) ''-- Loading product types... --''\<rparr>;
              p2 = setHidden [] [] [] p1
          in if category = [] \<or> quality = [] then
               (p2\<lparr>productEl := clearSelect (productEl p2) ''-- Select quality first --''\<rparr>, False)
             else if url_types_by_quality p2 = [] then (p2, True)
             else (issue (url_types_by_quality p2)
                     [(''category'', category), (''quality'', quality), (''q'', [])]
                     (AwaitTypes prevSelected) p2, False))"

definition loadTypesByQuality_fail :: "page \<Rightarrow> page" where
  "loadTypesByQuality_fail p =
     p\<lparr>productEl := clearSelect (productEl p) ''-- Error loading types --''\<rparr>"

definition loadTypesByQuality_done :: "string \<Rightarrow> reply option \<Rightarrow> page \<Rightarrow> page" where
  "loadTypesByQuality_done prevSelected json p =
     (case json of
        None \<Rightarrow> loadTypesByQuality_fail p
      | Some j \<Rightarrow>
          let results = (case j_results j of Some rs \<Rightarrow> rs | None \<Rightarrow> [])
          in if results = [] then
               p\<lparr>productEl := clearSelect (productEl p) ''-- No types found --''\<rparr>
             else
               let p1 = p\<lparr>productEl :=
                            append_options (map typeOption results)
                              (clearSelect (productEl p) ''-- Select type --'')\<rparr>
               in if prevSelected \<noteq> [] then
                    product_change
                      (p1\<lparr>productEl := map_option (set_value prevSelected) (productEl p1)\<rparr>)
                  else p1)"

text \<open>
  The \<open>change\<close> handler of the quality select:
  \<^verbatim>\<open>const q = (ev.target.value || "").toString();
  const category = categoryEl ? categoryEl.value.toUpperCase() : "";
  loadTypesByQuality(category, q);
  clearSelect(productEl, "-- Loading product types --");
  setHidden("", "", "");
  [costEl, widthEl, widthUomEl, finalPriceEl, pricePerSqftEl, finalCostEl]
    .forEach((el) => el && (el.value = ""));
  if (typeEl) typeEl.value = "";
  if (nameField) nameField.value = "";\<close>
\<close>

definition quality_change :: "page \<Rightarrow> page" where
  "quality_change p =
     (case qualityEl p of
        None \<Rightarrow> p
      | Some qs \<Rightarrow>
          let q = select_value qs;
              category = (case categoryEl p of Some c \<Rightarrow> toUpperCase c | None \<Rightarrow> []);
              (p1, rejected) = loadTypesByQuality_begin category q p;
              p2 = p1\<lparr>productEl := clearSelect (productEl p1) ''-- Loading product types --''\<rparr>;
              p3 = clear_derived_fields (setHidden [] [] [] p2)
          in if rejected then loadTypesByQuality_fail p3 else p3)"

subsection \<open>The category level: \<open>loadQualitiesByCategory\<close>\<close>

text \<open>
  \<^verbatim>\<open>async function loadQualitiesByCategory(category) {
    if (!qualityEl) return;
    const prevSelected = qualityEl.value || "";
    clearSelect(qualityEl, "-- Loading qualities... --");
    if (productEl) clearSelect(productEl, "-- Select type after quality --");
    setHidden("", "", "");
    if (!category) { clearSelect(qualityEl, "-- Select category first --"); return; }
    try {
      const json = await safeFetch(urls.qualities_by_category, { category });
      const results = json.results || [];
      if (!results.length) { clearSelect(qualityEl, "-- No qualities found --"); return; }
      clearSelect(qualityEl, "-- Select quality --");
      results.forEach((r) => { ... qualityEl.appendChild(opt); });
      if (prevSelected) {
        try {
          qualityEl.value = prevSelected;
          qualityEl.dispatchEvent(new Event("change", { bubbles: true }));
        } catch (e) {}
      }
    } catch (e) {
      clearSelect(qualityEl, "-- Error loading qualities --");
    } }\<close>
\<close>

definition loadQualitiesByCategory_begin :: "string \<Rightarrow> page \<Rightarrow> page \<times> bool" where
  "loadQualitiesByCategory_begin category p =
     (case qualityEl p of
        None \<Rightarrow> (p, False)
      | Some s \<Rightarrow>
          let prevSelected = select_value s;
              p1 = p\<lparr>qualityEl := clearSelect (qualityEl p) ''-- Loading qualities... --''\<rparr>;
              p2 = p1\<lparr>productEl := clearSelect (productEl p1) ''-- Select type after quality --''\<rparr>;
              p3 = setHidden [] [] [] p2
          in if category = [] then
               (p3\<lparr>qualityEl := clearSelect (qualityEl p3) ''-- Select category first --''\<rparr>, False)
             else if url_qualities_by_category p3 = [] then (p3, True)
             else (issue (url_qualities_by_category p3) [(''category'', category)]
                     (AwaitQualities prevSelected) p3, False))"

definition loadQualitiesByCategory_fail :: "page \<Rightarrow> page" where
  "loadQualitiesByCategory_fail p =
     p\<lparr>qualityEl := clearSelect (qualityEl p) ''-- Error loading qualities --''\<rparr>"

definition loadQualitiesByCategory_done :: "string \<Rightarrow> reply option \<Rightarrow> page \<Rightarrow> page" where
  "loadQualitiesByCategory_done prevSelected json p =
     (case json of
        None \<Rightarrow> loadQualitiesByCategory_fail p
      | Some j \<Rightarrow>
          let results = (case j_results j of Some rs \<Rightarrow> rs | None \<Rightarrow> [])
          in if results = [] then
               p\<lparr>qualityEl := clearSelect (qualityEl p) ''-- No qualities found --''\<rparr>
             else
               let p1 = p\<lparr>qualityEl :=
                            append_options (map qualityOption results)
                              (clearSelect (qualityEl p) ''-- Select quality --'')\<rparr>
               in if prevSelected \<noteq> [] then
                    quality_change
                      (p1\<lparr>qualityEl := map_option (set_value prevSelected) (qualityEl p1)\<rparr>)
                  else p1)"

text \<open>
  The \<open>change\<close> handler of the category select:
  \<^verbatim>\<open>const category = (ev.target.value || "").toUpperCase();
  loadQualitiesByCategory(category);
  clearSelect(productEl, "-- Select quality first --");
  setHidden("", "", "");
  [costEl, ...].forEach((el) => el && (el.value = ""));
  if (typeEl) typeEl.value = "";
  if (nameField) nameField.value = "";\<close>
\<close>

definition category_change :: "page \<Rightarrow> page" where
  "category_change p =
     (case categoryEl p of
        None \<Rightarrow> p
      | Some c \<Rightarrow>
          let category = toUpperCase c;
              (p1, rejected) = loadQualitiesByCategory_begin category p;
              p2 = p1\<lparr>productEl := clearSelect (productEl p1) ''-- Select quality first --''\<rparr>;
              p3 = clear_derived_fields (setHidden [] [] [] p2)
          in if rejected then loadQualitiesByCategory_fail p3 else p3)"

subsection \<open>Events\<close>

text \<open>
  What can happen to the page: the user picks a value in one of the three selects (the
  element takes the value, then its \<open>change\<close> handler runs), or the reply to a request
  in flight is delivered and the function awaiting it continues. Replies are delivered
  in whatever order the network produces them.
\<close>

definition select_category :: "string \<Rightarrow> page \<Rightarrow> page" where
  "select_category v p =
     (case categoryEl p of None \<Rightarrow> p | Some _ \<Rightarrow> category_change (p\<lparr>categoryEl := Some v\<rparr>))"

definition select_quality :: "string \<Rightarrow> page \<Rightarrow> page" where
  "select_quality v p =
     (case qualityEl p of
        None \<Rightarrow> p
      | Some s \<Rightarrow> quality_change (p\<lparr>qualityEl := Some (set_value v s)\<rparr>))"

definition select_product :: "string \<Rightarrow> page \<Rightarrow> page" where
  "select_product v p =
     (case productEl p of
        None \<Rightarrow> p
      | Some s \<Rightarrow> product_change (p\<lparr>productEl := Some (set_value v s)\<rparr>))"

definition deliver :: "nat \<Rightarrow> reply option \<Rightarrow> page \<Rightarrow> page" where
  "deliver i json p =
     (case map_of (inflight p) i of
        None \<Rightarrow> p
      | Some k \<Rightarrow>
          let p' = p\<lparr>inflight := filter (\<lambda>e. fst e \<noteq> i) (inflight p)\<rparr>
          in case k of
               AwaitQualities prevSelected \<Rightarrow> loadQualitiesByCategory_done prevSelected json p'
             | AwaitTypes prevSelected \<Rightarrow> loadTypesByQuality_done prevSelected json p'
             | AwaitItem \<Rightarrow> item_done json p')"

subsection \<open>An example page\<close>

text \<open>
  A page with every element present and the three URLs configured: the category
  \<open>fabric\<close> is chosen, the quality select offers \<open>Premium\<close> and \<open>Basic\<close>, the
  product select is empty, and nothing is in flight. The replies are what the server
  sends for the types of either quality and for two inventory items, the second of them
  without the three derived fields.
\<close>

definition quality_options :: "opt list" where
  "quality_options =
     [placeholder_option ''-- Select quality --'',
      \<lparr>o_value = ''1'', o_text = ''Premium'', data_id = Some ''1'', data_label = Some ''Premium'',
       data_type = None, data_ct = None, data_extra = None\<rparr>,
      \<lparr>o_value = ''2'', o_text = ''Basic'', data_id = Some ''2'', data_label = Some ''Basic'',
       data_type = None, data_ct = None, data_extra = None\<rparr>]"

definition example_page :: page where
  "example_page =
     \<lparr>url_qualities_by_category = ''/components/qualities/'',
      url_types_by_quality = ''/components/types/'',
      url_inventory_item = ''/components/item/'',
      categoryEl = Some ''fabric'',
      qualityEl = Some \<lparr>options = quality_options, selectedIndex = Some 0\<rparr>,
      productEl = Some \<lparr>options = [placeholder_option ''-- Select quality first --''],
                          selectedIndex = Some 0\<rparr>,
      logisticsEl = Some ''10'', costEl = Some [], widthEl = Some [], widthUomEl = Some [],
      finalPriceEl = Some [], pricePerSqftEl = Some [], finalCostEl = Some [],
      hiddenCT = Some [], hiddenOID = Some [], typeEl = Some [], nameField = Some [],
      component_product_help = Some [], requests = [], inflight = []\<rparr>"

definition type_result :: "string \<Rightarrow> string \<Rightarrow> result" where
  "type_result i t =
     \<lparr>r_id = Some i, r_value = None, r_label = None, r_label_text = None, r_extra = None,
      r_type = Some t, r_content_type_id = Some ''9'', r_content_type = None, r_ct = None\<rparr>"

definition results_reply :: "result list \<Rightarrow> reply" where
  "results_reply rs =
     \<lparr>j_results = Some rs, j_cost_per_unit = None, j_price = None, j_width = None,
      j_width_uom = None, j_final_price_per_unit = None, j_price_per_sqfoot = None,
      j_final_cost = None, j_type = None, j_label = None\<rparr>"

definition premium_types :: reply where
  "premium_types = results_reply [type_result ''11'' ''Linen 54'', type_result ''12'' ''Linen 44'']"

definition basic_types :: reply where
  "basic_types = results_reply [type_result ''21'' ''Cotton 44'']"

definition full_item :: reply where
  "full_item =
     \<lparr>j_results = None, j_cost_per_unit = Some ''12.50'', j_price = None, j_width = Some ''54'',
      j_width_uom = Some ''inch'', j_final_price_per_unit = Some ''13.75'',
      j_price_per_sqfoot = Some ''10.7265'', j_final_cost = Some ''13.75'',
      j_type = Some ''Linen 54'', j_label = None\<rparr>"

definition partial_item :: reply where
  "partial_item =
     \<lparr>j_results = None, j_cost_per_unit = Some ''20'', j_price = None, j_width = Some ''44'',
      j_width_uom = Some ''inch'', j_final_price_per_unit = None,
      j_price_per_sqfoot = None, j_final_cost = None,
      j_type = Some ''Linen 44'', j_label = None\<rparr>"


definition first_item_shown :: page where
  "first_item_shown =
     deliver 1 (Some full_item)
       (select_product ''11''
          (deliver 0 (Some premium_types) (select_quality ''1'' example_page)))"


section \<open>The costing sheet: colour check boxes and SKU previews (\<^verbatim>\<open>costing.js\<close>)\<close>

subsection \<open>Configuration\<close>

text \<open>
  \<^verbatim>\<open>ajax_compute_sku: cfg.ajax_compute_sku || defaults.ajax_compute_sku\<close>, with the
  default \<^verbatim>\<open>"/costing/ajax/compute-sku/"\<close>: whatever the page embeds, the URL that
  \<open>parseConfig\<close> returns is not empty.
\<close>

definition default_ajax_compute_sku :: string where
  "default_ajax_compute_sku = ''/costing/ajax/compute-sku/''"

definition parseConfig_ajax_compute_sku :: "string option \<Rightarrow> string" where
  "parseConfig_ajax_compute_sku embedded = or_else embedded default_ajax_compute_sku"

subsection \<open>The state of the preview\<close>

text \<open>
  The elements the preview reads and writes: the colour check boxes inside
  \<open>#component-colors\<close> (their value, their \<open>data-color-name\<close> and whether they are
  checked), the single-choice colour select (the value and the text of its selected
  option), the legacy colour field (its \<open>style.display\<close>), the preview list and the SKU
  input. Then the clock in milliseconds, the deadline of the pending debounce timer
  (\<open>None\<close> when no call of \<open>updateSkuPreviews\<close> is scheduled), and a log with one
  entry for each run of \<open>updateSkuPreviews\<close>: the requests that run sent to the
  compute-SKU endpoint. The other query parameters of such a request (category, name,
  collection, size) are read from form fields that play no part here and are left out.
\<close>

record checkbox =
  cb_value :: string
  cb_colorName :: "string option"
  cb_checked :: bool

datatype preview = NoColorsSelected | Generating | Previews "string list" | PreviewFailed

record sku_fetch =
  sf_colorId :: string
  sf_colorName :: string

record sku_result =
  colorId :: string
  colorName :: string
  sku :: string

record costing =
  cfg_ajax_compute_sku :: string
  colorsContainer :: "checkbox list option"
  colorSelect :: "(string \<times> string) option"
  legacyColorField_display :: "string option"
  skuPreviewList :: "preview option"
  skuInput :: "string option"
  now :: nat
  skuPreviewTimer :: "nat option"
  batches :: "sku_fetch list list"

datatype started = Nothing | Single sku_fetch | Batch "sku_fetch list"

subsection \<open>\<open>fetchSkuForColor\<close> and \<open>updateSkuPreviews\<close>\<close>

text \<open>
  \<^verbatim>\<open>function fetchSkuForColor(colorId, colorName) {
    return new Promise(function (resolve) {
      if (!cfg.ajax_compute_sku) { resolve({ colorId, colorName, sku: '' }); return; }
      ...
      ajaxGet(url, function (payload) {
        var sku = (payload && typeof payload.sku === 'string') ? payload.sku : '';
        resolve({ colorId: colorId, colorName: colorName, sku: sku });
      });
    }); }\<close>
  The promise never rejects: \<open>ajaxGet\<close> calls back with \<open>null\<close> on any failure. The
  answer to one request is \<open>Some s\<close> for a payload whose \<open>sku\<close> is the string
  \<open>s\<close>, and \<open>None\<close> for anything else.
\<close>

definition sends :: "costing \<Rightarrow> sku_fetch list \<Rightarrow> sku_fetch list" where
  "sends c fs = (if cfg_ajax_compute_sku c = [] then [] else fs)"

definition resolved :: "costing \<Rightarrow> sku_fetch \<Rightarrow> string option \<Rightarrow> sku_result" where
  "resolved c f answer =
     \<lparr>colorId = sf_colorId f, colorName = sf_colorName f,
      sku = (if cfg_ajax_compute_sku c = [] then []
             else case answer of Some s \<Rightarrow> s | None \<Rightarrow> [])\<rparr>"

text \<open>
  \<^verbatim>\<open>function updateSkuPreviews() {
    if (!colorsContainer) {
      if (colorSelect && colorSelect.value) {
        var selectedText = ...;
        fetchSkuForColor(colorSelect.value, selectedText).then(function (r) {
          if (skuPreviewList) skuPreviewList.innerHTML = '<ul><li>' + ... + '</li></ul>';
          if (skuInput) skuInput.value = r.sku || '';
        }).catch(function () {});
      } else {
        if (skuPreviewList) skuPreviewList.innerHTML = '... No colors selected ...';
      }
      return;
    }
    var checked = Array.from(colorsContainer.querySelectorAll('input[name="colors[]"]:checked') || []);
    if (!checked.length) {
      if (skuPreviewList) skuPreviewList.innerHTML = '... No colors selected ...';
      if (legacyColorField && !colorSelect) legacyColorField.style.display = '';
      if (skuInput) skuInput.value = '';
      return;
    }
    if (legacyColorField) legacyColorField.style.display = 'none';
    if (skuPreviewList) skuPreviewList.innerHTML = '<small>Generating previews...</small>';
    var promises = checked.map(function (ch) {
      return fetchSkuForColor(ch.value, ch.dataset.colorName || ch.value); });
    Promise.all(promises).then(function (results) {
      if (!skuPreviewList) return;
      var ul = document.createElement('ul');
      results.forEach(function (r) { ... li.textContent =
        (r.colorName || r.colorId) + ': ' + (r.sku || '(preview unavailable)'); ... });
      skuPreviewList.innerHTML = ''; skuPreviewList.appendChild(ul);
      if (results.length === 1) { if (skuInput) skuInput.value = results[0].sku || ''; }
      else { if (skuInput) skuInput.value = ''; }
    }).catch(...); }\<close>
  \<open>updateSkuPreviews\<close> is the function as far as it runs when it is called; it returns
  what it has started. \<open>finish_batch\<close> and \<open>finish_single\<close> are the two
  \<open>then\<close> callbacks, run with the answers once all of them are in.
\<close>

definition fetch_of :: "checkbox \<Rightarrow> sku_fetch" where
  "fetch_of ch = \<lparr>sf_colorId = cb_value ch, sf_colorName = or_else (cb_colorName ch) (cb_value ch)\<rparr>"

definition set_preview :: "preview \<Rightarrow> costing \<Rightarrow> costing" where
  "set_preview v c = c\<lparr>skuPreviewList := map_option (\<lambda>_. v) (skuPreviewList c)\<rparr>"

definition updateSkuPreviews :: "costing \<Rightarrow> costing \<times> started" where
  "updateSkuPreviews c =
     (case colorsContainer c of
        None \<Rightarrow>
          (case colorSelect c of
             None \<Rightarrow> (set_preview NoColorsSelected (c\<lparr>batches := batches c @ [[]]\<rparr>), Nothing)
           | Some (v, selectedText) \<Rightarrow>
               if v \<noteq> [] then
                 let f = \<lparr>sf_colorId = v, sf_colorName = selectedText\<rparr>
                 in (c\<lparr>batches := batches c @ [sends c [f]]\<rparr>, Single f)
               else (set_preview NoColorsSelected (c\<lparr>batches := batches c @ [[]]\<rparr>), Nothing))
      | Some boxes \<Rightarrow>
          let checked = filter cb_checked boxes
          in if checked = [] then
               (let c1 = set_preview NoColorsSelected (c\<lparr>batches := batches c @ [[]]\<rparr>);
                    c2 = (if colorSelect c1 = None
                          then c1\<lparr>legacyColorField_display :=
                                    map_option (\<lambda>_. []) (legacyColorField_display c1)\<rparr>
                          else c1)
                in c2\<lparr>skuInput := map_option (\<lambda>_. []) (skuInput c2)\<rparr>, Nothing)
             else
               (let c1 = c\<lparr>legacyColorField_display :=
                              map_option (\<lambda>_. ''none'') (legacyColorField_display c)\<rparr>;
                    c2 = set_preview Generating c1;
                    fs = map fetch_of checked
                in (c2\<lparr>batches := batches c2 @ [sends c2 fs]\<rparr>, Batch fs)))"

definition preview_line :: "sku_result \<Rightarrow> string" where
  "preview_line r =
     (if colorName r \<noteq> [] then colorName r else colorId r) @ '': '' @
     (if sku r \<noteq> [] then sku r else ''(preview unavailable)'')"

definition finish_batch :: "sku_fetch list \<Rightarrow> string option list \<Rightarrow> costing \<Rightarrow> costing" where
  "finish_batch fs answers c =
     (let results = map (\<lambda>(f, a). resolved c f a) (zip fs answers)
      in case skuPreviewList c of
           None \<Rightarrow> c
         | Some _ \<Rightarrow>
             c\<lparr>skuPreviewList := Some (Previews (map preview_line results)),
               skuInput :=
                 map_option (\<lambda>_. if length results = 1 then sku (hd results) else [])
                   (skuInput c)\<rparr>)"

definition finish_single :: "sku_fetch \<Rightarrow> string option \<Rightarrow> costing \<Rightarrow> costing" where
  "finish_single f answer c =
     (let r = resolved c f answer
      in (set_preview (Previews [preview_line r]) c)
           \<lparr>skuInput := map_option (\<lambda>_. sku r) (skuInput c)\<rparr>)"

text \<open>
  One whole recomputation: the call, and the callback on the answers. The answers are
  listed in the order of the requests, as \<open>Promise.all\<close> hands them over.
\<close>

definition recompute :: "string option list \<Rightarrow> costing \<Rightarrow> costing" where
  "recompute answers c =
     (case updateSkuPreviews c of
        (c', Nothing) \<Rightarrow> c'
      | (c', Single f) \<Rightarrow> finish_single f (case answers of a # _ \<Rightarrow> a | [] \<Rightarrow> None) c'
      | (c', Batch fs) \<Rightarrow> finish_batch fs (answers @ replicate (length fs - length answers) None) c')"

subsection \<open>The debounce\<close>

text \<open>
  \<^verbatim>\<open>var skuPreviewTimer = null;
  function debounceSkuPreview(fn, wait) {
    return function () {
      var args = arguments;
      if (skuPreviewTimer) clearTimeout(skuPreviewTimer);
      skuPreviewTimer = setTimeout(function () { fn.apply(null, args); }, wait || 200);
    }; }
  var updateSkuPreviewsDebounced = debounceSkuPreview(updateSkuPreviews, 220);
  function onColorCheckboxChange() { updateSkuPreviewsDebounced(); }\<close>
  In the model \<open>skuPreviewTimer\<close> is the deadline of the timeout that is still to
  fire; a timeout that has fired leaves \<open>None\<close>, since clearing it has no effect.
  \<open>advance t\<close> lets the clock run to \<open>t\<close>: a timeout whose deadline has come by then
  fires at its deadline and runs \<open>updateSkuPreviews\<close>. \<open>toggle i\<close> is a click on the
  check box number \<open>i\<close>: the box flips and its \<open>change\<close> handler runs.
\<close>

definition debounce_wait :: nat where
  "debounce_wait = 220"

definition updateSkuPreviewsDebounced :: "costing \<Rightarrow> costing" where
  "updateSkuPreviewsDebounced c = c\<lparr>skuPreviewTimer := Some (now c + debounce_wait)\<rparr>"

definition advance :: "nat \<Rightarrow> costing \<Rightarrow> costing" where
  "advance t c =
     (case skuPreviewTimer c of
        None \<Rightarrow> c\<lparr>now := t\<rparr>
      | Some deadline \<Rightarrow>
          if deadline \<le> t
          then (fst (updateSkuPreviews (c\<lparr>now := deadline, skuPreviewTimer := None\<rparr>)))\<lparr>now := t\<rparr>
          else c\<lparr>now := t\<rparr>)"

definition flip :: "checkbox \<Rightarrow> checkbox" where
  "flip ch = ch\<lparr>cb_checked := \<not> cb_checked ch\<rparr>"

definition toggle :: "nat \<Rightarrow> costing \<Rightarrow> costing" where
  "toggle i c =
     (case colorsContainer c of
        None \<Rightarrow> c
      | Some boxes \<Rightarrow>
          if i < length boxes
          then updateSkuPreviewsDebounced (c\<lparr>colorsContainer := Some (boxes[i := flip (boxes ! i)])\<rparr>)
          else c)"

text \<open>A run of clicks, each with the time at which it happens.\<close>

fun run_toggles :: "(nat \<times> nat) list \<Rightarrow> costing \<Rightarrow> costing" where
  "run_toggles [] c = c"
| "run_toggles ((t, i) # es) c = run_toggles es (toggle i (advance t c))"

text \<open>
  \<open>spaced w t es\<close>: the clicks \<open>es\<close> come in the order of their times, the first one
  not before \<open>t\<close>, and each at most \<open>w\<close> milliseconds after the one before it (the
  first at most \<open>w\<close> after \<open>t\<close>).
\<close>

fun spaced :: "nat \<Rightarrow> nat \<Rightarrow> (nat \<times> nat) list \<Rightarrow> bool" where
  "spaced w t [] = True"
| "spaced w t ((t', i) # es) = (t \<le> t' \<and> t' \<le> t + w \<and> spaced w t' es)"

subsection \<open>Example sheets\<close>

definition three_colors :: "checkbox list" where
  "three_colors =
     [\<lparr>cb_value = ''3'', cb_colorName = Some ''Red'', cb_checked = False\<rparr>,
      \<lparr>cb_value = ''5'', cb_colorName = Some ''Blue'', cb_checked = False\<rparr>,
      \<lparr>cb_value = ''8'', cb_colorName = Some ''Ivory'', cb_checked = False\<rparr>]"

definition example_sheet :: costing where
  "example_sheet =
     \<lparr>cfg_ajax_compute_sku = parseConfig_ajax_compute_sku None,
      colorsContainer = Some three_colors, colorSelect = None,
      legacyColorField_display = None, skuPreviewList = Some NoColorsSelected,
      skuInput = Some [], now = 0, skuPreviewTimer = None, batches = []\<rparr>"

text \<open>
  A sheet whose template has the SKU input but no \<open>#sku-preview-list\<close> element; the
  input still holds the SKU of an earlier choice, and two colours are checked.
\<close>

definition sheet_without_list :: costing where
  "sheet_without_list =
     example_sheet
       \<lparr>colorsContainer := Some [flip (three_colors ! 0), flip (three_colors ! 1), three_colors ! 2],
        skuPreviewList := None, skuInput := Some ''LIN-IVO-54''\<rparr>"

section \<open>Chat client: \<open>sendMessage\<close> (staticfiles/chat/js/chat.js)\<close>

text \<open>
  \<^verbatim>\<open>const MAX_PAYLOAD_LENGTH = 2000;
  function sendMessage() {
    if (!socket || socket.readyState !== WebSocket.OPEN) {
      appendSystemLine("Cannot send message: socket not connected.");
      return;
    }
    if (!input) return;
    const text = input.value ? input.value.trim() : "";
    if (!text) return;
    if (text.length > MAX_PAYLOAD_LENGTH) {
      appendSystemLine("Message too long.");
      return;
    }
    const payload = {
      message: text,
      username:
        (typeof window !== "undefined" && window.GLOBAL_CHAT_USERNAME) ||
        (container && container.dataset && container.dataset.username) ||
        "anonymous",
    };
    try {
      socket.send(JSON.stringify(payload));
      input.value = "";
    } catch (err) {
      appendSystemLine("Failed to send message.");
    } }\<close>

  The chat script keeps its connection state in closure variables and reads the page
  through a handful of DOM lookups. The record below holds exactly what
  \<open>sendMessage\<close> reads or writes: the socket (absent, or a WebSocket in one of its
  four ready states), the value of the \<open>#msg-input\<close> element (absent when the page
  has no such element), the two places a user name can come from, the system lines
  appended to the message list, and the frames handed to \<open>socket.send\<close>, each as
  the object that \<open>JSON.stringify\<close> is applied to. \<open>send_throws\<close> says whether
  \<open>socket.send\<close> raises, which is what the \<open>try\<close> block is there for.
  \<open>length\<close> stands for JavaScript's \<open>.length\<close>.
\<close>

datatype readyState = CONNECTING | OPEN | CLOSING | CLOSED

record payload =
  message :: string
  username :: string

record chat =
  socket :: "readyState option"
  input_value :: "string option"
  GLOBAL_CHAT_USERNAME :: "string option"
  dataset_username :: "string option"
  system_lines :: "string list"
  sent :: "payload list"
  send_throws :: bool

definition MAX_PAYLOAD_LENGTH :: nat where
  "MAX_PAYLOAD_LENGTH = 2000"

definition appendSystemLine :: "string \<Rightarrow> chat \<Rightarrow> chat" where
  "appendSystemLine text c = c\<lparr>system_lines := system_lines c @ [text]\<rparr>"

definition resolve_username :: "chat \<Rightarrow> string" where
  "resolve_username c =
     or_else (GLOBAL_CHAT_USERNAME c) (or_else (dataset_username c) ''anonymous'')"

definition sendMessage :: "chat \<Rightarrow> chat" where
  "sendMessage c =
     (if socket c \<noteq> Some OPEN then
        appendSystemLine ''Cannot send message: socket not connected.'' c
      else case input_value c of
        None \<Rightarrow> c
      | Some v \<Rightarrow>
          let text = (if v \<noteq> [] then trim v else [])
          in if text = [] then c
             else if length text > MAX_PAYLOAD_LENGTH then
               appendSystemLine ''Message too long.'' c
             else if send_throws c then
               appendSystemLine ''Failed to send message.'' c
             else
               c\<lparr>sent := sent c @ [\<lparr>message = text, username = resolve_username c\<rparr>],
                 input_value := Some []\<rparr>)"

text \<open>
  States of the client: connected with a message typed in and no user name anywhere,
  the same page disconnected, the page with \<open>window.GLOBAL_CHAT_USERNAME\<close> set, and
  the page whose container carries \<open>data-username\<close> while the global is empty.
\<close>

definition chat_ready :: chat where
  "chat_ready = \<lparr>socket = Some OPEN, input_value = Some ''  hi there '',
     GLOBAL_CHAT_USERNAME = None, dataset_username = Some [],
     system_lines = [], sent = [], send_throws = False\<rparr>"

definition chat_offline :: chat where
  "chat_offline = chat_ready\<lparr>socket := Some CLOSED\<rparr>"

definition chat_named :: chat where
  "chat_named = chat_ready\<lparr>GLOBAL_CHAT_USERNAME := Some ''asha'',
     dataset_username := Some ''ravi''\<rparr>"

definition chat_dataset :: chat where
  "chat_dataset = chat_ready\<lparr>GLOBAL_CHAT_USERNAME := Some [],
     dataset_username := Some ''ravi''\<rparr>"

section \<open>Proofs\<close>

subsection \<open>Printing and reading back decimals\<close>







lemma show_nat_not_Nil: "show_nat n \<noteq> []"
  by (subst show_nat.simps) simp













lemma round_to_zero [simp]: "round_to f 0 = 0"
  by (simp add: round_to_def round_scaled_def)




subsection \<open>Evaluating the calculator on concrete inputs\<close>

lemma show_nat_small: "n < 10 \<Longrightarrow> show_nat n = [digit_char n]"
  by (subst show_nat.simps) simp

lemma show_nat_large:
  "10 \<le> n \<Longrightarrow> show_nat n = show_nat (n div 10) @ [digit_char (n mod 10)]"
  by (subst show_nat.simps) simp

lemma floor_rat_numeral:
  "\<lfloor>numeral a / numeral b :: rat\<rfloor> = numeral a div numeral b"
  by (metis floor_divide_of_int_eq of_int_numeral)

lemma replicate_numeral_Cons: "replicate (numeral k) x = x # replicate (pred_numeral k) x"
  by (simp add: numeral_eq_Suc)

lemmas eval_simps = parseNum_def Number_js_def strip_non_numeric_def is_digit_def
  digits_val_def digit_val_def toFixed_def round_scaled_def round_to_def show_nat_small
  show_nat_large digit_char_def Let_def finalPricePerUnit_def pricePerSqft_def denom_def
  widthInInch_def toLowerCase_def toUpperCase_def swap_case_def latin_capitals_def latin_smalls_def centimeter_units_def
  computeClientMetrics_def floor_rat_numeral replicate_numeral_Cons


subsection \<open>The calculator\<close>












subsection \<open>The Remote Lookup Client\<close>

lemma safeFetch_returns_promise: "\<exists>p. safeFetch h CSRF_TOKEN url params opts = Returns p"
  by (simp add: safeFetch_def async_def)

lemma safeFetch_settle_ok_json:
  assumes "res_ok res" and "res_text res = Some t" and "t \<noteq> []" and "JSON_parse h t = Some j"
  shows "safeFetch_settle h res = Inr j"
  using assms by (simp add: safeFetch_settle_def try_catch_def)

lemma safeFetch_settle_ok_raw:
  assumes "res_ok res" and "res_text res = Some t" and "t \<noteq> []" and "JSON_parse h t = None"
  shows "safeFetch_settle h res = Inr (JObj [(''raw'', JStr t)])"
  using assms by (simp add: safeFetch_settle_def try_catch_def)

text \<open>
  On a status outside \<open>200..299\<close> the error thrown inside the \<open>try\<close> block, which
  carries the parsed body, is caught by the \<open>catch\<close> clause of the same statement,
  and the error that leaves the function carries the raw text instead.
\<close>

lemma safeFetch_settle_not_ok:
  assumes "\<not> res_ok res"
  shows "safeFetch_settle h res =
           Inl (status_error res (BodyText (case res_text res of Some t \<Rightarrow> t | None \<Rightarrow> [])))"
  using assms by (simp add: safeFetch_settle_def try_catch_def Let_def split: option.splits)

text \<open>
  Claim C6, at the input where the code departs from it. The server answers a request
  with status 400 and the JSON body \<^verbatim>\<open>{"error": "Color already exists"}\<close>, which
  \<open>JSON.parse\<close> accepts. \<open>safeFetch\<close> does not throw to its caller; the promise it
  returns is rejected with an error that carries the status 400, and whose body is the
  text of the response, not the object parsed from it.
\<close>

theorem safeFetch_error_body_is_raw_text:
  \<open>JSON_parse duplicate_color_host duplicate_color_text = Some duplicate_color_json \<and>
   safeFetch duplicate_color_host ''tok'' ''/components/colors/create/''
       [(''component_id'', ''7''), (''name'', ''Red'')]
       \<lparr>opt_method = Some ''POST'', opt_contentType = None\<rparr> =
     Returns (Rejected (Error ''Fetch 400 Bad Request'' (Some 400)
       (Some (BodyText ''{"error": "Color already exists"}'')))) \<and>
   BodyText ''{"error": "Color already exists"}'' \<noteq> BodyJson duplicate_color_json\<close>
proof -
  have "\<not> res_ok duplicate_color_response"
    by (simp add: res_ok_def duplicate_color_response_def)
  then have "safeFetch_settle duplicate_color_host duplicate_color_response =
      Inl (status_error duplicate_color_response (BodyText duplicate_color_text))"
    by (simp add: safeFetch_settle_not_ok) (simp add: duplicate_color_response_def)
  moreover have "show_nat 400 = ''400''"
    by (simp add: show_nat_small show_nat_large digit_char_def)
  ultimately show ?thesis
    by (simp add: safeFetch_def async_def duplicate_color_host_def status_error_def
        duplicate_color_response_def duplicate_color_text_def)
qed

subsection \<open>The component form: selects and handlers\<close>

lemma clearSelect_None [simp]: "clearSelect None t = None"
  by (simp add: clearSelect_def)

lemma find_index_Some:
  "find_index P xs = Some i \<Longrightarrow> i < length xs \<and> P (xs ! i)"
  by (induction xs arbitrary: i) (auto split: if_splits)

lemma find_index_None: "find_index P xs = None \<longleftrightarrow> (\<forall>x\<in>set xs. \<not> P x)"
  by (induction xs) auto

lemma select_value_set_value:
  "select_value (set_value v s) = (if v \<in> o_value ` set (options s) then v else [])"
proof (cases "find_index (\<lambda>x. o_value x = v) (options s)")
  case None
  then have "v \<notin> o_value ` set (options s)" by (auto simp: find_index_None)
  then show ?thesis
    by (simp add: select_value_def selected_option_def set_value_def None)
next
  case (Some i)
  from find_index_Some [OF this] have "i < length (options s)" "o_value (options s ! i) = v"
    by simp_all
  then show ?thesis
    by (auto simp: select_value_def selected_option_def set_value_def Some)
qed

lemma select_value_set_empty [simp]: "select_value (set_value [] s) = []"
  by (simp add: select_value_set_value)

lemma clearSelect_eq_None [simp]: "clearSelect el t = None \<longleftrightarrow> el = None"
  by (simp add: clearSelect_def split: option.splits)

lemma clearSelect_clearSelect [simp]: "clearSelect (clearSelect el t) u = clearSelect el u"
  by (simp add: clearSelect_def split: option.splits)

lemma options_foldl_appendChild:
  "options (foldl (\<lambda>s x. appendChild x s) s xs) = options s @ xs"
  by (induction xs arbitrary: s) (simp_all add: appendChild_def)

lemma append_options_eq_None [simp]: "append_options xs el = None \<longleftrightarrow> el = None"
  by (simp add: append_options_def)

lemma options_appendChild [simp]: "options (appendChild x s) = options s @ [x]"
  by (simp add: appendChild_def)

lemma options_append_options_clearSelect:
  "el \<noteq> None \<Longrightarrow> t \<noteq> [] \<Longrightarrow>
   map_option options (append_options xs (clearSelect el t)) = Some (placeholder_option t # xs)"
  by (auto simp: append_options_def clearSelect_def options_foldl_appendChild)

text \<open>Projections of the product handler.\<close>

lemma product_change_productEl [simp]: "productEl (product_change p) = productEl p"
  by (simp add: product_change_def fetchInventoryItem_def item_done_def auto_name_def
      populateFromItemResponse_def issue_def setHidden_def Let_def split: option.splits)



lemma options_set_value [simp]: "options (set_value v s) = options s"
  by (simp add: set_value_def)


lemma toUpperCase_Nil_iff [simp]: "toUpperCase c = [] \<longleftrightarrow> c = []"
  by (simp add: toUpperCase_def)










lemmas page_simps = select_category_def select_quality_def select_product_def deliver_def
  category_change_def quality_change_def product_change_def
  loadQualitiesByCategory_begin_def loadQualitiesByCategory_done_def loadQualitiesByCategory_fail_def
  loadTypesByQuality_begin_def loadTypesByQuality_done_def loadTypesByQuality_fail_def
  fetchInventoryItem_def item_done_def populateFromItemResponse_def auto_name_def
  issue_def setHidden_def clear_derived_fields_def set_el_def el_value_def
  set_if_supplied_def fill_if_empty_def clearSelect_def appendChild_def append_options_def
  placeholder_option_def set_value_def select_value_def selected_option_def
  typeOption_def qualityOption_def nonempty_def or_else_def truthy_def trim_def is_space_def
  toUpperCase_def swap_case_def latin_capitals_def latin_smalls_def Let_def

lemmas example_simps = example_page_def quality_options_def type_result_def results_reply_def
  premium_types_def basic_types_def full_item_def partial_item_def






lemma first_item_shown_eq:
  "first_item_shown = example_page
     \<lparr>qualityEl := Some \<lparr>options = quality_options, selectedIndex = Some 1\<rparr>,
       productEl := Some \<lparr>options = placeholder_option ''-- Select type --'' #
                            map typeOption [type_result ''11'' ''Linen 54'',
                                            type_result ''12'' ''Linen 44''],
                          selectedIndex = Some 1\<rparr>,
       costEl := Some ''12.50'', widthEl := Some ''54'', widthUomEl := Some ''inch'',
       finalPriceEl := Some ''13.75'', pricePerSqftEl := Some ''10.7265'',
       finalCostEl := Some ''13.75'', hiddenCT := Some ''9'', hiddenOID := Some ''11'',
       typeEl := Some ''Linen 54'', nameField := Some ''1 Linen 54'',
       component_product_help := Some ''Linen 54'',
       requests := [\<lparr>lk_url = ''/components/types/'',
                     lk_params = [(''category'', ''FABRIC''), (''quality'', ''1''), (''q'', [])]\<rparr>,
                    \<lparr>lk_url = ''/components/item/'',
                     lk_params = [(''content_type_id'', ''9''), (''object_id'', ''11''),
                                  (''quality'', ''1''), (''logistics_percent'', ''10'')]\<rparr>]\<rparr>"
  by (simp add: first_item_shown_def page_simps example_simps)



text \<open>
  \<open>populateFromItemResponse\<close> on the three derived fields: a value the server
  supplied is written; where the server left the field blank, the local value is written
  if the form field is empty at that moment, and the field keeps what it holds
  otherwise.
\<close>

lemma populateFromItemResponse_derived:
  fixes j :: reply and p :: page
  defines "m \<equiv> computeClientMetrics
                 (or_else (j_cost_per_unit j) (or_else (j_price j) []))
                 (or_else (j_width j) []) (or_else (j_width_uom j) ''inch'')
                 (or_else (logisticsEl p) ''0'')"
  assumes "finalPriceEl p = Some a" and "pricePerSqftEl p = Some b" and "finalCostEl p = Some c"
  shows "finalPriceEl (populateFromItemResponse (Some j) p) =
           Some (if truthy (j_final_price_per_unit j) then the (j_final_price_per_unit j)
                 else if a = [] then final_price_per_unit m else a)"
    and "pricePerSqftEl (populateFromItemResponse (Some j) p) =
           Some (if truthy (j_price_per_sqfoot j) then the (j_price_per_sqfoot j)
                 else if b = [] then price_per_sqfoot m else b)"
    and "finalCostEl (populateFromItemResponse (Some j) p) =
           Some (if truthy (j_final_cost j) then the (j_final_cost j)
                 else if c = [] then final_cost m else c)"
  using assms(2-4) unfolding m_def
  by (auto simp: populateFromItemResponse_def auto_name_def Let_def set_if_supplied_def
      fill_if_empty_def set_el_def or_else_def truthy_def split: option.splits)

text \<open>
  Claim C3, at the input where the code departs from it. The form shows the first
  product (final price \<open>13.75\<close>, as the server supplied it). The user picks the
  second product, and the server answers with cost \<open>20\<close> and width \<open>44\<close> but
  without the three derived fields. The handler of the product select does not clear the
  derived fields, so they are not empty when the reply is processed, and they keep the
  values of the first product: final price \<open>13.75\<close> next to cost \<open>20\<close>, where
  the local computation gives \<open>22.00\<close>.
\<close>

theorem partial_reply_keeps_stale_values:
  "finalPriceEl first_item_shown = Some ''13.75'' \<and>
   j_final_price_per_unit partial_item = None \<and>
   j_price_per_sqfoot partial_item = None \<and>
   j_final_cost partial_item = None \<and>
   costEl (deliver 2 (Some partial_item) (select_product ''12'' first_item_shown)) = Some ''20'' \<and>
   widthEl (deliver 2 (Some partial_item) (select_product ''12'' first_item_shown)) = Some ''44'' \<and>
   finalPriceEl (deliver 2 (Some partial_item) (select_product ''12'' first_item_shown)) =
     Some ''13.75'' \<and>
   pricePerSqftEl (deliver 2 (Some partial_item) (select_product ''12'' first_item_shown)) =
     Some ''10.7265'' \<and>
   finalCostEl (deliver 2 (Some partial_item) (select_product ''12'' first_item_shown)) =
     Some ''13.75'' \<and>
   computeClientMetrics ''20'' ''44'' ''inch'' ''10'' =
     \<lparr>final_price_per_unit = ''22.00'', price_per_sqfoot = ''21.0630'', final_cost = ''22.00''\<rparr>"
proof -
  have "computeClientMetrics ''20'' ''44'' ''inch'' ''10'' =
     \<lparr>final_price_per_unit = ''22.00'', price_per_sqfoot = ''21.0630'', final_cost = ''22.00''\<rparr>"
    by (simp add: eval_simps)
  then show ?thesis
    by (simp add: first_item_shown_eq) (simp add: page_simps example_simps)
qed

subsection \<open>The costing sheet: SKU previews\<close>

lemma parseConfig_not_empty [simp]: "parseConfig_ajax_compute_sku embedded \<noteq> []"
  by (simp add: parseConfig_ajax_compute_sku_def or_else_def default_ajax_compute_sku_def
      split: option.splits)

lemma updateSkuPreviews_boxes:
  assumes "colorsContainer c = Some boxes" and "cfg_ajax_compute_sku c \<noteq> []"
  shows "batches (fst (updateSkuPreviews c)) =
           batches c @ [map fetch_of (filter cb_checked boxes)]"
    and "colorsContainer (fst (updateSkuPreviews c)) = Some boxes"
  using assms
  by (simp_all add: updateSkuPreviews_def Let_def set_preview_def sends_def)

lemma toggle_state:
  assumes "colorsContainer c = Some boxes" and "i < length boxes"
  shows "toggle i c =
           c\<lparr>colorsContainer := Some (boxes[i := flip (boxes ! i)]),
             skuPreviewTimer := Some (now c + debounce_wait)\<rparr>"
  using assms by (simp add: toggle_def updateSkuPreviewsDebounced_def)

lemma advance_before_deadline:
  assumes "skuPreviewTimer c = Some d" and "t < d"
  shows "advance t c = c\<lparr>now := t\<rparr>"
  using assms by (simp add: advance_def)

lemma run_toggles_quiet:
  assumes "colorsContainer c = Some boxes"
    and "skuPreviewTimer c = Some (now c + debounce_wait)"
    and "spaced w (now c) es" and "w < debounce_wait"
    and "\<forall>e\<in>set es. snd e < length boxes"
  shows "batches (run_toggles es c) = batches c \<and>
         cfg_ajax_compute_sku (run_toggles es c) = cfg_ajax_compute_sku c \<and>
         skuPreviewTimer (run_toggles es c) = Some (now (run_toggles es c) + debounce_wait) \<and>
         now (run_toggles es c) = (if es = [] then now c else fst (last es)) \<and>
         (\<exists>boxes'. colorsContainer (run_toggles es c) = Some boxes' \<and>
                    length boxes' = length boxes)"
  using assms
proof (induction es arbitrary: c boxes)
  case Nil
  then show ?case by simp
next
  case (Cons e es)
  obtain t i where e: "e = (t, i)" by (cases e)
  from Cons.prems(3) e have t: "now c \<le> t" "t \<le> now c + w" "spaced w t es" by simp_all
  from Cons.prems(5) e have i: "i < length boxes" by simp
  define c1 where "c1 = advance t c"
  have c1: "c1 = c\<lparr>now := t\<rparr>"
    unfolding c1_def using Cons.prems(2,4) t(2)
    by (intro advance_before_deadline [where d = "now c + debounce_wait"]) simp_all
  define c2 where "c2 = toggle i c1"
  have c2: "c2 = c1\<lparr>colorsContainer := Some (boxes[i := flip (boxes ! i)]),
                    skuPreviewTimer := Some (now c1 + debounce_wait)\<rparr>"
    unfolding c2_def using Cons.prems(1) i by (intro toggle_state) (simp_all add: c1)
  have IH: "batches (run_toggles es c2) = batches c2 \<and>
         cfg_ajax_compute_sku (run_toggles es c2) = cfg_ajax_compute_sku c2 \<and>
         skuPreviewTimer (run_toggles es c2) = Some (now (run_toggles es c2) + debounce_wait) \<and>
         now (run_toggles es c2) = (if es = [] then now c2 else fst (last es)) \<and>
         (\<exists>boxes'. colorsContainer (run_toggles es c2) = Some boxes' \<and>
                    length boxes' = length (boxes[i := flip (boxes ! i)]))"
  proof (rule Cons.IH)
    show "colorsContainer c2 = Some (boxes[i := flip (boxes ! i)])" by (simp add: c2)
    show "skuPreviewTimer c2 = Some (now c2 + debounce_wait)" by (simp add: c2)
    show "spaced w (now c2) es" using t(3) by (simp add: c2 c1)
    show "w < debounce_wait" by (rule Cons.prems(4))
    show "\<forall>e\<in>set es. snd e < length (boxes[i := flip (boxes ! i)])"
      using Cons.prems(5) by simp
  qed
  have run: "run_toggles (e # es) c = run_toggles es c2"
    by (simp add: e c2_def c1_def)
  from IH show ?case
    unfolding run by (auto simp: c2 c1 e)
qed

lemmas sheet_simps = updateSkuPreviews_def finish_batch_def finish_single_def recompute_def
  set_preview_def sends_def resolved_def fetch_of_def preview_line_def flip_def toggle_def
  advance_def updateSkuPreviewsDebounced_def debounce_wait_def or_else_def Let_def
  parseConfig_ajax_compute_sku_def default_ajax_compute_sku_def
  example_sheet_def three_colors_def sheet_without_list_def

text \<open>
  Claim C8. The colour check boxes are clicked one after the other, each click at most
  100 ms after the one before it; a recomputation scheduled earlier, if there is one, is
  not yet due at the first click. No run of
  \<open>updateSkuPreviews\<close> happens during the clicks; once the quiet window of 220 ms
  after the last click has passed, exactly one run has happened, and it has sent one
  request for each check box that is checked at that time.
\<close>

theorem debounced_toggles_issue_one_batch:
  assumes "colorsContainer c = Some boxes"
    and "skuPreviewTimer c = None \<or> (\<exists>d. skuPreviewTimer c = Some d \<and> t < d)"
    and "cfg_ajax_compute_sku c = parseConfig_ajax_compute_sku embedded"
    and "now c \<le> t" and "spaced 100 t es"
    and "\<forall>e\<in>set ((t, i) # es). snd e < length boxes"
    and "fst (last ((t, i) # es)) + debounce_wait \<le> T"
  shows "batches (run_toggles ((t, i) # es) c) = batches c \<and>
         (\<exists>boxes'. colorsContainer (run_toggles ((t, i) # es) c) = Some boxes' \<and>
            batches (advance T (run_toggles ((t, i) # es) c)) =
              batches c @ [map fetch_of (filter cb_checked boxes')])"
proof -
  define c1 where "c1 = toggle i (advance t c)"
  have adv: "advance t c = c\<lparr>now := t\<rparr>" using assms(2) by (auto simp: advance_def)
  have i: "i < length boxes" using assms(6) by simp
  have c1: "c1 = c\<lparr>now := t, colorsContainer := Some (boxes[i := flip (boxes ! i)]),
                   skuPreviewTimer := Some (t + debounce_wait)\<rparr>"
    unfolding c1_def adv using assms(1) i
    by (subst toggle_state [where boxes = boxes]) simp_all
  define c2 where "c2 = run_toggles es c1"
  have quiet: "batches c2 = batches c1 \<and>
         cfg_ajax_compute_sku c2 = cfg_ajax_compute_sku c1 \<and>
         skuPreviewTimer c2 = Some (now c2 + debounce_wait) \<and>
         now c2 = (if es = [] then now c1 else fst (last es)) \<and>
         (\<exists>boxes'. colorsContainer c2 = Some boxes' \<and>
                    length boxes' = length (boxes[i := flip (boxes ! i)]))"
    unfolding c2_def
  proof (rule run_toggles_quiet [where w = 100])
    show "colorsContainer c1 = Some (boxes[i := flip (boxes ! i)])" by (simp add: c1)
    show "skuPreviewTimer c1 = Some (now c1 + debounce_wait)" by (simp add: c1)
    show "spaced 100 (now c1) es" using assms(5) by (simp add: c1)
    show "(100::nat) < debounce_wait" by (simp add: debounce_wait_def)
    show "\<forall>e\<in>set es. snd e < length (boxes[i := flip (boxes ! i)])"
      using assms(6) by simp
  qed
  then obtain boxes' where boxes': "colorsContainer c2 = Some boxes'" by blast
  have run: "run_toggles ((t, i) # es) c = c2" by (simp add: c2_def c1_def)
  have last: "now c2 = fst (last ((t, i) # es))" using quiet by (simp add: c1)
  have cfg: "cfg_ajax_compute_sku c2 \<noteq> []" using quiet assms(3) by (simp add: c1)
  have due: "now c2 + debounce_wait \<le> T" using assms(7) last by simp
  define c3 where "c3 = c2\<lparr>now := now c2 + debounce_wait, skuPreviewTimer := None\<rparr>"
  have "batches (advance T c2) = batches (fst (updateSkuPreviews c3))"
    using quiet due by (simp add: advance_def c3_def)
  also have "\<dots> = batches c3 @ [map fetch_of (filter cb_checked boxes')]"
    by (rule updateSkuPreviews_boxes) (simp_all add: c3_def boxes' cfg)
  also have "batches c3 = batches c" using quiet by (simp add: c3_def c1)
  finally have "batches (advance T c2) = batches c @ [map fetch_of (filter cb_checked boxes')]" .
  moreover have "batches c2 = batches c" using quiet by (simp add: c1)
  ultimately show ?thesis unfolding run using boxes' by simp
qed

theorem debounced_toggles_issue_one_batch_witness:
  "colorsContainer example_sheet = Some three_colors \<and>
   skuPreviewTimer example_sheet = None \<and>
   cfg_ajax_compute_sku example_sheet = parseConfig_ajax_compute_sku None \<and>
   now example_sheet \<le> 0 \<and> spaced 100 0 [(80, 1), (160, 2)] \<and>
   length three_colors = 3 \<and>
   fst (last [(0, 0), (80, 1), (160, 2::nat)]) + debounce_wait \<le> (380::nat) \<and>
   batches (run_toggles [(0, 0), (80, 1), (160, 2)] example_sheet) = [] \<and>
   batches (advance 380 (run_toggles [(0, 0), (80, 1), (160, 2)] example_sheet)) =
     [[\<lparr>sf_colorId = ''3'', sf_colorName = ''Red''\<rparr>,
       \<lparr>sf_colorId = ''5'', sf_colorName = ''Blue''\<rparr>,
       \<lparr>sf_colorId = ''8'', sf_colorName = ''Ivory''\<rparr>]]"
proof -
  have h1: "colorsContainer example_sheet = Some three_colors"
    and h2: "skuPreviewTimer example_sheet = None"
    and h3: "cfg_ajax_compute_sku example_sheet = parseConfig_ajax_compute_sku None"
    and h4: "now example_sheet \<le> 0"
    by (simp_all add: example_sheet_def)
  have h5: "spaced 100 0 [(80, 1), (160, 2)]" by simp
  have h6: "\<forall>e\<in>set [(0, 0), (80, 1), (160, 2::nat)]. snd e < length three_colors"
    by (simp add: three_colors_def)
  have h7: "fst (last [(0, 0), (80, 1), (160, 2::nat)]) + debounce_wait \<le> (380::nat)"
    by (simp add: debounce_wait_def)
  have boxes: "colorsContainer (run_toggles [(0, 0), (80, 1), (160, 2)] example_sheet) =
      Some (map flip three_colors)"
    by (simp add: sheet_simps)
  from debounced_toggles_issue_one_batch [OF h1 disjI1 [OF h2] h3 h4 h5 h6 h7] boxes
  have "batches (run_toggles [(0, 0), (80, 1), (160, 2)] example_sheet) = batches example_sheet"
    and "batches (advance 380 (run_toggles [(0, 0), (80, 1), (160, 2)] example_sheet)) =
      batches example_sheet @ [map fetch_of (filter cb_checked (map flip three_colors))]"
    by auto
  then show ?thesis using h1 h2 h3 h5 h7
    by (simp add: example_sheet_def three_colors_def flip_def fetch_of_def or_else_def)
qed

text \<open>
  With the preview list on the page, a recomputation leaves the SKU input with the
  fetched SKU when exactly one colour is checked, and empty otherwise.
\<close>

lemma finish_batch_with_list:
  assumes "skuPreviewList c = Some v"
  shows "skuInput (finish_batch fs answers c) =
           map_option (\<lambda>_. case zip fs answers of
                              [(f, a)] \<Rightarrow> sku (resolved c f a) | _ \<Rightarrow> []) (skuInput c)"
  using assms
  by (cases "zip fs answers" rule: list.exhaust; cases "tl (zip fs answers)")
     (auto simp: finish_batch_def Let_def split: list.splits)

lemma recompute_none_checked:
  assumes "colorsContainer c = Some boxes" and "filter cb_checked boxes = []"
  shows "skuInput (recompute answers c) = map_option (\<lambda>_. []) (skuInput c)"
  using assms by (simp add: recompute_def updateSkuPreviews_def set_preview_def Let_def)

lemma recompute_with_list:
  assumes "colorsContainer c = Some boxes" and "skuPreviewList c = Some v"
    and "cfg_ajax_compute_sku c \<noteq> []"
    and "length answers = length (filter cb_checked boxes)"
  shows "skuInput (recompute answers c) =
           map_option (\<lambda>_. case answers of [Some s] \<Rightarrow> s | _ \<Rightarrow> []) (skuInput c)"
proof (cases "filter cb_checked boxes")
  case Nil
  with assms(4) have "answers = []" by simp
  with recompute_none_checked [OF assms(1) Nil] show ?thesis by simp
next
  case (Cons b bs)
  show ?thesis
  proof (cases bs)
    case Nil
    with Cons assms(4) obtain a where a: "answers = [a]" by (cases answers) auto
    with Cons Nil assms(1,2,3) show ?thesis
      by (cases a) (simp_all add: recompute_def updateSkuPreviews_def set_preview_def Let_def
          finish_batch_def resolved_def)
  next
    case (Cons b' bs')
    with \<open>filter cb_checked boxes = b # bs\<close> assms(4)
    obtain a a' as where a: "answers = a # a' # as"
      by (cases answers; cases "tl answers") auto
    with Cons \<open>filter cb_checked boxes = b # bs\<close> assms(1,2,3) show ?thesis
      by (cases a) (simp_all add: recompute_def updateSkuPreviews_def set_preview_def Let_def
          finish_batch_def resolved_def)
  qed
qed

text \<open>
  Claim C7, at the input where the code departs from it. The page has the colour check
  boxes and the SKU input, but no \<open>#sku-preview-list\<close> element; two colours are
  checked and the input holds an earlier SKU. The callback on the answers returns at
  \<^verbatim>\<open>if (!skuPreviewList) return;\<close> before it reaches the SKU input, which keeps
  the earlier SKU. On the same sheet with a preview list the input is cleared.
\<close>

theorem sku_input_untouched_without_preview_list:
  "map_option (map cb_checked) (colorsContainer sheet_without_list) = Some [True, True, False] \<and>
   skuPreviewList sheet_without_list = None \<and>
   skuInput sheet_without_list = Some ''LIN-IVO-54'' \<and>
   skuInput (recompute [Some ''LIN-RED-54'', Some ''LIN-BLU-54''] sheet_without_list) =
     Some ''LIN-IVO-54'' \<and>
   skuInput (recompute [Some ''LIN-RED-54'', Some ''LIN-BLU-54'']
              (sheet_without_list\<lparr>skuPreviewList := Some NoColorsSelected\<rparr>)) = Some []"
  by (simp add: sheet_simps)

subsection \<open>The chat client\<close>

lemma trim_Nil [simp]: "trim [] = []"
  by (simp add: trim_def)

lemma sendMessage_sends_when_valid:
  assumes "socket c = Some OPEN" and "input_value c = Some v"
    and "trim v \<noteq> []" and "length (trim v) \<le> MAX_PAYLOAD_LENGTH" and "\<not> send_throws c"
  shows "sendMessage c =
           c\<lparr>sent := sent c @ [\<lparr>message = trim v, username = resolve_username c\<rparr>],
             input_value := Some []\<rparr>"
proof -
  from assms(3) have "v \<noteq> []" by auto
  with assms show ?thesis by (simp add: sendMessage_def Let_def)
qed

lemma resolve_username_cases:
  "resolve_username c =
     (if truthy (GLOBAL_CHAT_USERNAME c) then the (GLOBAL_CHAT_USERNAME c)
      else if truthy (dataset_username c) then the (dataset_username c)
      else ''anonymous'')"
  by (simp add: resolve_username_def or_else_def truthy_def split: option.splits)

text \<open>
  Claim C10. In every state of the chat client, \<open>sendMessage\<close> hands a frame to the
  socket only when the socket is open and the trimmed input text is non-empty and at
  most \<open>MAX_PAYLOAD_LENGTH = 2000\<close> characters long; the frame then is the object
  whose \<open>message\<close> is the trimmed text and whose \<open>username\<close> is
  \<open>window.GLOBAL_CHAT_USERNAME\<close> when that is a non-empty string, else the
  container's \<open>data-username\<close> when that is a non-empty string, else
  \<open>anonymous\<close>. Whenever nothing is sent, the input value is left as it was.
\<close>

theorem sendMessage_transmits_only_valid:
  "(sent (sendMessage c) \<noteq> sent c \<longrightarrow>
      socket c = Some OPEN \<and>
      (\<exists>v. input_value c = Some v \<and> trim v \<noteq> [] \<and>
           length (trim v) \<le> MAX_PAYLOAD_LENGTH \<and> MAX_PAYLOAD_LENGTH = 2000 \<and>
           sent (sendMessage c) =
             sent c @ [\<lparr>message = trim v,
                        username =
                          (if truthy (GLOBAL_CHAT_USERNAME c) then the (GLOBAL_CHAT_USERNAME c)
                           else if truthy (dataset_username c) then the (dataset_username c)
                           else ''anonymous'')\<rparr>])) \<and>
   (sent (sendMessage c) = sent c \<longrightarrow> input_value (sendMessage c) = input_value c) \<and>
   (\<not> truthy (GLOBAL_CHAT_USERNAME c) \<and> \<not> truthy (dataset_username c) \<longrightarrow>
      resolve_username c = ''anonymous'')"
proof (intro conjI impI)
  assume "sent (sendMessage c) \<noteq> sent c"
  then show "socket c = Some OPEN"
    by (auto simp: sendMessage_def appendSystemLine_def Let_def split: option.splits if_splits)
next
  assume changed: "sent (sendMessage c) \<noteq> sent c"
  then obtain v where v: "input_value c = Some v"
    by (cases "input_value c")
       (auto simp: sendMessage_def appendSystemLine_def Let_def split: if_splits)
  from changed v have "trim v \<noteq> []" "length (trim v) \<le> MAX_PAYLOAD_LENGTH"
    "sent (sendMessage c) = sent c @ [\<lparr>message = trim v, username = resolve_username c\<rparr>]"
    by (auto simp: sendMessage_def appendSystemLine_def Let_def split: if_splits)
  with v show "\<exists>v. input_value c = Some v \<and> trim v \<noteq> [] \<and>
      length (trim v) \<le> MAX_PAYLOAD_LENGTH \<and> MAX_PAYLOAD_LENGTH = 2000 \<and>
      sent (sendMessage c) =
        sent c @ [\<lparr>message = trim v,
                   username =
                     (if truthy (GLOBAL_CHAT_USERNAME c) then the (GLOBAL_CHAT_USERNAME c)
                      else if truthy (dataset_username c) then the (dataset_username c)
                      else ''anonymous'')\<rparr>]"
    by (simp add: MAX_PAYLOAD_LENGTH_def resolve_username_cases)
next
  assume "sent (sendMessage c) = sent c"
  then show "input_value (sendMessage c) = input_value c"
    by (auto simp: sendMessage_def appendSystemLine_def Let_def split: option.splits if_splits)
next
  assume "\<not> truthy (GLOBAL_CHAT_USERNAME c) \<and> \<not> truthy (dataset_username c)"
  then show "resolve_username c = ''anonymous''"
    by (simp add: resolve_username_cases)
qed

lemma trim_example: "trim ''  hi there '' = ''hi there''"
  by (simp add: trim_def is_space_def)

lemmas chat_simps =
  sendMessage_def chat_ready_def chat_offline_def chat_named_def chat_dataset_def
  appendSystemLine_def Let_def trim_example MAX_PAYLOAD_LENGTH_def truthy_def

theorem sendMessage_transmits_only_valid_witness:
  "sent (sendMessage chat_ready) \<noteq> sent chat_ready \<and>
   socket chat_ready = Some OPEN \<and>
   sent (sendMessage chat_ready) = [\<lparr>message = ''hi there'', username = ''anonymous''\<rparr>] \<and>
   sent (sendMessage chat_named) \<noteq> sent chat_named \<and>
   sent (sendMessage chat_named) = [\<lparr>message = ''hi there'', username = ''asha''\<rparr>] \<and>
   sent (sendMessage chat_dataset) \<noteq> sent chat_dataset \<and>
   sent (sendMessage chat_dataset) = [\<lparr>message = ''hi there'', username = ''ravi''\<rparr>] \<and>
   sent (sendMessage chat_offline) = sent chat_offline \<and>
   input_value (sendMessage chat_offline) = Some ''  hi there '' \<and>
   \<not> truthy (GLOBAL_CHAT_USERNAME chat_ready) \<and> \<not> truthy (dataset_username chat_ready) \<and>
   resolve_username chat_ready = ''anonymous''"
proof -
  have sends: "sent (sendMessage chat_ready) \<noteq> sent chat_ready"
    "sent (sendMessage chat_named) \<noteq> sent chat_named"
    "sent (sendMessage chat_dataset) \<noteq> sent chat_dataset"
    by (simp_all add: chat_simps)
  have quiet: "sent (sendMessage chat_offline) = sent chat_offline"
    by (simp add: chat_simps)
  have anon: "\<not> truthy (GLOBAL_CHAT_USERNAME chat_ready) \<and> \<not> truthy (dataset_username chat_ready)"
    by (simp add: chat_simps)
  have named: "truthy (GLOBAL_CHAT_USERNAME chat_named)"
    "\<not> truthy (GLOBAL_CHAT_USERNAME chat_dataset)" "truthy (dataset_username chat_dataset)"
    by (simp_all add: chat_simps)
  from sendMessage_transmits_only_valid [of chat_ready] sends(1) anon
  have ready: "socket chat_ready = Some OPEN" "resolve_username chat_ready = ''anonymous''"
    "\<exists>v. input_value chat_ready = Some v \<and>
       sent (sendMessage chat_ready) =
         sent chat_ready @ [\<lparr>message = trim v, username = ''anonymous''\<rparr>]"
    by auto
  from sendMessage_transmits_only_valid [of chat_named] sends(2) named(1)
  have asha: "\<exists>v. input_value chat_named = Some v \<and>
       sent (sendMessage chat_named) =
         sent chat_named @ [\<lparr>message = trim v,
                              username = the (GLOBAL_CHAT_USERNAME chat_named)\<rparr>]"
    by auto
  from sendMessage_transmits_only_valid [of chat_dataset] sends(3) named(2,3)
  have ravi: "\<exists>v. input_value chat_dataset = Some v \<and>
       sent (sendMessage chat_dataset) =
         sent chat_dataset @ [\<lparr>message = trim v,
                                username = the (dataset_username chat_dataset)\<rparr>]"
    by auto
  from sendMessage_transmits_only_valid [of chat_offline] quiet
  have off: "input_value (sendMessage chat_offline) = input_value chat_offline" by blast
  from ready(3) have r: "sent (sendMessage chat_ready) =
      [\<lparr>message = ''hi there'', username = ''anonymous''\<rparr>]"
    by (auto simp: chat_ready_def trim_example)
  from asha have a: "sent (sendMessage chat_named) =
      [\<lparr>message = ''hi there'', username = ''asha''\<rparr>]"
    by (auto simp: chat_named_def chat_ready_def trim_example)
  from ravi have d: "sent (sendMessage chat_dataset) =
      [\<lparr>message = ''hi there'', username = ''ravi''\<rparr>]"
    by (auto simp: chat_dataset_def chat_ready_def trim_example)
  from off have o: "input_value (sendMessage chat_offline) = Some ''  hi there ''"
    by (simp add: chat_offline_def chat_ready_def)
  from sends quiet anon ready(1,2) r a d o show ?thesis by simp
qed

end
